theory Spec2Isabelle
  imports Main "HOL-Library.Word"
begin

section \<open>The Dwebble WebSocket server facade\<close>

text \<open>
  The facade class \<open>FDwebbleWebSocketServerImpl\<close> exists in three near-identical copies
  (\<open>Dwebble/WebSocketServer.cpp\<close>, \<open>Dwebble/DwebbleWebSocketServer.cpp\<close> and
  \<open>DwebbleWebSocket/WebSocketServer.cpp\<close>). They differ in the spelling of the FFI
  enumerators and in the type of the \<open>Subprotocols\<close> field of the configuration (one
  string, or an array of strings that is joined with commas). The model below follows
  \<open>Dwebble/WebSocketServer.cpp\<close> and takes the block that fills the FFI configuration
  as a parameter of \<open>Start\<close>, with one definition of that block per variant.
\<close>

subsection \<open>Result and event enumerations (DwebbleTypes.h)\<close>

datatype EResult =
    Ok
  | InvalidHandle
  | InvalidParam
  | AlreadyRunning
  | NotRunning
  | BindFailed
  | TlsError
  | RuntimeError
  | SendFailed
  | ConnectionClosed

datatype EEventType =
    None_event
  | ClientConnected
  | ClientDisconnected
  | MessageReceived
  | Error_event

text \<open>
  The header \<open>dwebble_rws.h\<close> is not among the sources. The enumerations
  \<open>DwebbleWSResult\<close> and \<open>DwebbleWSEventType\<close> (both \<open>enum class : int32\<close>) are read
  off the case labels of \<open>ConvertResult\<close> and \<open>ConvertEventType\<close>; the last constructor
  stands for every other value of the underlying 32-bit integer, the one the
  \<open>default\<close> label of the switch receives.
\<close>

datatype DwebbleWSResult =
    DWEBBLE_WS_RESULT_OK
  | DWEBBLE_WS_RESULT_INVALID_HANDLE
  | DWEBBLE_WS_RESULT_INVALID_PARAM
  | DWEBBLE_WS_RESULT_ALREADY_RUNNING
  | DWEBBLE_WS_RESULT_NOT_RUNNING
  | DWEBBLE_WS_RESULT_BIND_FAILED
  | DWEBBLE_WS_RESULT_TLS_ERROR
  | DWEBBLE_WS_RESULT_RUNTIME_ERROR
  | DWEBBLE_WS_RESULT_SEND_FAILED
  | DWEBBLE_WS_RESULT_CONNECTION_CLOSED
  | DWEBBLE_WS_RESULT_unlisted "32 word"

datatype DwebbleWSEventType =
    DWEBBLE_WS_EVENT_TYPE_NONE
  | DWEBBLE_WS_EVENT_TYPE_CLIENT_CONNECTED
  | DWEBBLE_WS_EVENT_TYPE_CLIENT_DISCONNECTED
  | DWEBBLE_WS_EVENT_TYPE_MESSAGE_RECEIVED
  | DWEBBLE_WS_EVENT_TYPE_ERROR
  | DWEBBLE_WS_EVENT_TYPE_unlisted "32 word"

text \<open>\<open>ConvertResult\<close>: the switch of WebSocketServer.cpp, one equation per label.\<close>

fun ConvertResult :: "DwebbleWSResult \<Rightarrow> EResult" where
  "ConvertResult DWEBBLE_WS_RESULT_OK = Ok"
| "ConvertResult DWEBBLE_WS_RESULT_INVALID_HANDLE = InvalidHandle"
| "ConvertResult DWEBBLE_WS_RESULT_INVALID_PARAM = InvalidParam"
| "ConvertResult DWEBBLE_WS_RESULT_ALREADY_RUNNING = AlreadyRunning"
| "ConvertResult DWEBBLE_WS_RESULT_NOT_RUNNING = NotRunning"
| "ConvertResult DWEBBLE_WS_RESULT_BIND_FAILED = BindFailed"
| "ConvertResult DWEBBLE_WS_RESULT_TLS_ERROR = TlsError"
| "ConvertResult DWEBBLE_WS_RESULT_RUNTIME_ERROR = RuntimeError"
| "ConvertResult DWEBBLE_WS_RESULT_SEND_FAILED = SendFailed"
| "ConvertResult DWEBBLE_WS_RESULT_CONNECTION_CLOSED = ConnectionClosed"
| "ConvertResult (DWEBBLE_WS_RESULT_unlisted v) = RuntimeError"

fun ConvertEventType :: "DwebbleWSEventType \<Rightarrow> EEventType" where
  "ConvertEventType DWEBBLE_WS_EVENT_TYPE_NONE = None_event"
| "ConvertEventType DWEBBLE_WS_EVENT_TYPE_CLIENT_CONNECTED = ClientConnected"
| "ConvertEventType DWEBBLE_WS_EVENT_TYPE_CLIENT_DISCONNECTED = ClientDisconnected"
| "ConvertEventType DWEBBLE_WS_EVENT_TYPE_MESSAGE_RECEIVED = MessageReceived"
| "ConvertEventType DWEBBLE_WS_EVENT_TYPE_ERROR = Error_event"
| "ConvertEventType (DWEBBLE_WS_EVENT_TYPE_unlisted v) = None_event"

subsection \<open>Configuration and event values (DwebbleTypes.h)\<close>

type_synonym FString = string

text \<open>
  \<open>FServerConfig\<close>. The type parameter is the type of \<open>Subprotocols\<close>: \<open>FString\<close> in
  \<open>Dwebble/DwebbleTypes.h\<close> (one comma-separated string), \<open>FString list\<close> in
  \<open>DwebbleWebSocket/DwebbleTypes.h\<close> (\<open>TArray<FString>\<close>). \<open>Port\<close> is an \<open>int32\<close>.
\<close>

record 'sp FServerConfig =
  Port :: "32 word"
  BindAddress :: FString
  Subprotocols :: 'sp
  TlsCertPath :: FString
  TlsKeyPath :: FString

definition Default_config :: "'sp \<Rightarrow> 'sp FServerConfig" where
  "Default_config none =
     \<lparr>Port = 0, BindAddress = ''127.0.0.1'', Subprotocols = none,
      TlsCertPath = [], TlsKeyPath = []\<rparr>"

record FEvent =
  EventType :: EEventType
  ConnectionId :: "64 word"
  Data :: "8 word list"
  ErrorMessage :: FString

definition Default_event :: FEvent where
  "Default_event = \<lparr>EventType = None_event, ConnectionId = 0, Data = [], ErrorMessage = []\<rparr>"

subsection \<open>The engine boundary (dwebble_rws.h)\<close>

text \<open>
  The FFI structures, as \<open>Start\<close> and \<open>PollEvent\<close> use them. A \<open>const char*\<close> or byte
  pointer is an \<open>option\<close>: \<open>None\<close> is \<open>nullptr\<close>, \<open>Some b\<close> points to the buffer \<open>b\<close>.
  \<open>port\<close> is a \<open>uint16_t\<close>. A server handle is an opaque pointer; its null value is the
  \<open>None\<close> of \<open>ServerHandle\<close> below.
\<close>

record DwebbleWSServerConfig =
  port :: "16 word"
  bind_address :: "string option"
  subprotocols :: "string option"
  tls_cert_path :: "string option"
  tls_key_path :: "string option"

record DwebbleWSEvent =
  event_type :: DwebbleWSEventType
  connection_id :: "64 word"
  data :: "8 word list option"
  data_len :: nat
  error_message :: "string option"

type_synonym DwebbleWSServerHandle = nat

text \<open>
  Modelled from the spec: the engine behind \<open>dwebble_rws.h\<close> and Unreal's string
  conversions are not among the sources. Section 6 of the specification lists the
  boundary calls (\<open>create(config) -> handle | null\<close>, \<open>start\<close>, \<open>stop\<close>, \<open>destroy\<close>,
  \<open>get_port\<close>, \<open>get_connection_count\<close>, \<open>info\<close>, \<open>send\<close>, \<open>send_text\<close>,
  \<open>disconnect\<close>, \<open>poll(handle) -> event | empty\<close>). The engine is a parameter: a
  record of functions on an engine state \<open>'e\<close> of any type, each returning its answer
  and the next engine state. \<open>StringCast_ANSICHAR\<close> and \<open>UTF8_TO_TCHAR\<close> are the two
  Unreal conversions the facade calls, parameters as well. \<open>Memcpy_out_of_bounds\<close>
  stands for what \<open>PollEvent\<close> ends up with when the engine hands it a length that its
  buffer does not cover: the source's behaviour is undefined there, so the model leaves
  the value open (see \<open>PollEvent\<close>).
\<close>

record 'e Boundary =
  server_create :: "DwebbleWSServerConfig \<Rightarrow> 'e \<Rightarrow> DwebbleWSServerHandle option \<times> 'e"
  server_start :: "DwebbleWSServerHandle \<Rightarrow> 'e \<Rightarrow> DwebbleWSResult \<times> 'e"
  server_stop :: "DwebbleWSServerHandle \<Rightarrow> 'e \<Rightarrow> DwebbleWSResult \<times> 'e"
  server_destroy :: "DwebbleWSServerHandle \<Rightarrow> 'e \<Rightarrow> 'e"
  server_get_port :: "DwebbleWSServerHandle \<Rightarrow> 'e \<Rightarrow> 16 word \<times> 'e"
  server_get_connection_count :: "DwebbleWSServerHandle \<Rightarrow> 'e \<Rightarrow> 64 word \<times> 'e"
  server_info :: "DwebbleWSServerHandle \<Rightarrow> 'e \<Rightarrow> string option \<times> 'e"
  free_string :: "string \<Rightarrow> 'e \<Rightarrow> 'e"
  server_send :: "DwebbleWSServerHandle \<Rightarrow> 64 word \<Rightarrow> 8 word list \<Rightarrow> 'e \<Rightarrow> DwebbleWSResult \<times> 'e"
  server_send_text :: "DwebbleWSServerHandle \<Rightarrow> 64 word \<Rightarrow> string \<Rightarrow> 'e \<Rightarrow> DwebbleWSResult \<times> 'e"
  server_disconnect :: "DwebbleWSServerHandle \<Rightarrow> 64 word \<Rightarrow> 'e \<Rightarrow> DwebbleWSResult \<times> 'e"
  server_poll :: "DwebbleWSServerHandle \<Rightarrow> 'e \<Rightarrow> DwebbleWSEvent option \<times> 'e"
  StringCast_ANSICHAR :: "FString \<Rightarrow> string"
  UTF8_TO_TCHAR :: "string \<Rightarrow> FString"
  Memcpy_out_of_bounds :: "8 word list \<Rightarrow> nat \<Rightarrow> 8 word list"

text \<open>
  Every call the facade makes across the boundary is recorded, oldest first, next to the
  engine state: a handle is leaked or released twice according to the \<open>Call_create\<close>
  and \<open>Call_destroy\<close> entries of this log.
\<close>

datatype rws_call =
    Call_create DwebbleWSServerConfig "DwebbleWSServerHandle option"
  | Call_start DwebbleWSServerHandle
  | Call_stop DwebbleWSServerHandle
  | Call_destroy DwebbleWSServerHandle
  | Call_get_port DwebbleWSServerHandle
  | Call_get_connection_count DwebbleWSServerHandle
  | Call_info DwebbleWSServerHandle
  | Call_free_string string
  | Call_send DwebbleWSServerHandle "64 word" "8 word list"
  | Call_send_text DwebbleWSServerHandle "64 word" string
  | Call_disconnect DwebbleWSServerHandle "64 word"
  | Call_poll DwebbleWSServerHandle

record 'e world =
  engine_state :: 'e
  calls :: "rws_call list"

definition dwebble_rws_server_create ::
  "'e Boundary \<Rightarrow> DwebbleWSServerConfig \<Rightarrow> 'e world \<Rightarrow> DwebbleWSServerHandle option \<times> 'e world" where
  "dwebble_rws_server_create E cfg w =
     (case server_create E cfg (engine_state w) of
        (h, e) \<Rightarrow> (h, \<lparr>engine_state = e, calls = calls w @ [Call_create cfg h]\<rparr>))"

definition dwebble_rws_server_start ::
  "'e Boundary \<Rightarrow> DwebbleWSServerHandle \<Rightarrow> 'e world \<Rightarrow> DwebbleWSResult \<times> 'e world" where
  "dwebble_rws_server_start E h w =
     (case server_start E h (engine_state w) of
        (r, e) \<Rightarrow> (r, \<lparr>engine_state = e, calls = calls w @ [Call_start h]\<rparr>))"

definition dwebble_rws_server_stop ::
  "'e Boundary \<Rightarrow> DwebbleWSServerHandle \<Rightarrow> 'e world \<Rightarrow> DwebbleWSResult \<times> 'e world" where
  "dwebble_rws_server_stop E h w =
     (case server_stop E h (engine_state w) of
        (r, e) \<Rightarrow> (r, \<lparr>engine_state = e, calls = calls w @ [Call_stop h]\<rparr>))"

definition dwebble_rws_server_destroy ::
  "'e Boundary \<Rightarrow> DwebbleWSServerHandle \<Rightarrow> 'e world \<Rightarrow> 'e world" where
  "dwebble_rws_server_destroy E h w =
     \<lparr>engine_state = server_destroy E h (engine_state w), calls = calls w @ [Call_destroy h]\<rparr>"

definition dwebble_rws_server_get_port ::
  "'e Boundary \<Rightarrow> DwebbleWSServerHandle \<Rightarrow> 'e world \<Rightarrow> 16 word \<times> 'e world" where
  "dwebble_rws_server_get_port E h w =
     (case server_get_port E h (engine_state w) of
        (p, e) \<Rightarrow> (p, \<lparr>engine_state = e, calls = calls w @ [Call_get_port h]\<rparr>))"

definition dwebble_rws_server_get_connection_count ::
  "'e Boundary \<Rightarrow> DwebbleWSServerHandle \<Rightarrow> 'e world \<Rightarrow> 64 word \<times> 'e world" where
  "dwebble_rws_server_get_connection_count E h w =
     (case server_get_connection_count E h (engine_state w) of
        (n, e) \<Rightarrow> (n, \<lparr>engine_state = e, calls = calls w @ [Call_get_connection_count h]\<rparr>))"

definition dwebble_rws_server_info ::
  "'e Boundary \<Rightarrow> DwebbleWSServerHandle \<Rightarrow> 'e world \<Rightarrow> string option \<times> 'e world" where
  "dwebble_rws_server_info E h w =
     (case server_info E h (engine_state w) of
        (i, e) \<Rightarrow> (i, \<lparr>engine_state = e, calls = calls w @ [Call_info h]\<rparr>))"

definition dwebble_rws_free_string :: "'e Boundary \<Rightarrow> string \<Rightarrow> 'e world \<Rightarrow> 'e world" where
  "dwebble_rws_free_string E str w =
     \<lparr>engine_state = free_string E str (engine_state w), calls = calls w @ [Call_free_string str]\<rparr>"

definition dwebble_rws_server_send ::
  "'e Boundary \<Rightarrow> DwebbleWSServerHandle \<Rightarrow> 64 word \<Rightarrow> 8 word list \<Rightarrow> 'e world
     \<Rightarrow> DwebbleWSResult \<times> 'e world" where
  "dwebble_rws_server_send E h c bytes w =
     (case server_send E h c bytes (engine_state w) of
        (r, e) \<Rightarrow> (r, \<lparr>engine_state = e, calls = calls w @ [Call_send h c bytes]\<rparr>))"

definition dwebble_rws_server_send_text ::
  "'e Boundary \<Rightarrow> DwebbleWSServerHandle \<Rightarrow> 64 word \<Rightarrow> string \<Rightarrow> 'e world
     \<Rightarrow> DwebbleWSResult \<times> 'e world" where
  "dwebble_rws_server_send_text E h c txt w =
     (case server_send_text E h c txt (engine_state w) of
        (r, e) \<Rightarrow> (r, \<lparr>engine_state = e, calls = calls w @ [Call_send_text h c txt]\<rparr>))"

definition dwebble_rws_server_disconnect ::
  "'e Boundary \<Rightarrow> DwebbleWSServerHandle \<Rightarrow> 64 word \<Rightarrow> 'e world \<Rightarrow> DwebbleWSResult \<times> 'e world" where
  "dwebble_rws_server_disconnect E h c w =
     (case server_disconnect E h c (engine_state w) of
        (r, e) \<Rightarrow> (r, \<lparr>engine_state = e, calls = calls w @ [Call_disconnect h c]\<rparr>))"

definition dwebble_rws_server_poll ::
  "'e Boundary \<Rightarrow> DwebbleWSServerHandle \<Rightarrow> 'e world \<Rightarrow> DwebbleWSEvent option \<times> 'e world" where
  "dwebble_rws_server_poll E h w =
     (case server_poll E h (engine_state w) of
        (ev, e) \<Rightarrow> (ev, \<lparr>engine_state = e, calls = calls w @ [Call_poll h]\<rparr>))"

subsection \<open>Configuration translation (the first block of Start)\<close>

text \<open>
  \<open>FString::Join\<close>: the elements in order, the separator between neighbours.
\<close>

fun Join :: "FString list \<Rightarrow> FString \<Rightarrow> FString" where
  "Join [] sep = []"
| "Join [x] sep = x"
| "Join (x # y # ys) sep = x @ sep @ Join (y # ys) sep"

text \<open>
  \<open>Dwebble/WebSocketServer.cpp\<close>, lines 37 to 47 (and the same lines of
  \<open>Dwebble/DwebbleWebSocketServer.cpp\<close>): \<open>Subprotocols\<close> is one string.
  \<open>static_cast<uint16_t>\<close> of the \<open>int32\<close> port is \<open>ucast\<close>.
\<close>

definition FfiConfig_Dwebble :: "'e Boundary \<Rightarrow> FString FServerConfig \<Rightarrow> DwebbleWSServerConfig" where
  "FfiConfig_Dwebble E c =
     (let BindAddressAnsi = StringCast_ANSICHAR E (BindAddress c);
          SubprotocolsAnsi = StringCast_ANSICHAR E (Subprotocols c);
          CertPathAnsi = StringCast_ANSICHAR E (TlsCertPath c);
          KeyPathAnsi = StringCast_ANSICHAR E (TlsKeyPath c)
      in \<lparr>port = ucast (Port c),
          bind_address = Some BindAddressAnsi,
          subprotocols = (if Subprotocols c = [] then None else Some SubprotocolsAnsi),
          tls_cert_path = (if TlsCertPath c = [] then None else Some CertPathAnsi),
          tls_key_path = (if TlsKeyPath c = [] then None else Some KeyPathAnsi)\<rparr>)"

text \<open>
  \<open>DwebbleWebSocket/WebSocketServer.cpp\<close>, lines 37 to 51: \<open>Subprotocols\<close> is an array,
  joined with commas before the conversion.
\<close>

definition FfiConfig_DwebbleWebSocket ::
  "'e Boundary \<Rightarrow> (FString list) FServerConfig \<Rightarrow> DwebbleWSServerConfig" where
  "FfiConfig_DwebbleWebSocket E c =
     (let BindAddressAnsi = StringCast_ANSICHAR E (BindAddress c);
          SubprotocolsJoined = Join (Subprotocols c) '','';
          SubprotocolsAnsi = StringCast_ANSICHAR E SubprotocolsJoined;
          CertPathAnsi = StringCast_ANSICHAR E (TlsCertPath c);
          KeyPathAnsi = StringCast_ANSICHAR E (TlsKeyPath c)
      in \<lparr>port = ucast (Port c),
          bind_address = Some BindAddressAnsi,
          subprotocols = (if Subprotocols c = [] then None else Some SubprotocolsAnsi),
          tls_cert_path = (if TlsCertPath c = [] then None else Some CertPathAnsi),
          tls_key_path = (if TlsKeyPath c = [] then None else Some KeyPathAnsi)\<rparr>)"

subsection \<open>The facade (WebSocketServer.cpp)\<close>

record 'c FDwebbleWebSocketServerImpl =
  Config :: 'c
  ServerHandle :: "DwebbleWSServerHandle option"
  bIsRunning :: bool

text \<open>The constructor, which is all that \<open>IServer::Create\<close> runs.\<close>

definition Create :: "'c \<Rightarrow> 'c FDwebbleWebSocketServerImpl" where
  "Create InConfig = \<lparr>Config = InConfig, ServerHandle = None, bIsRunning = False\<rparr>"

text \<open>
  \<open>Start\<close>. The parameter \<open>tr\<close> is the block that fills \<open>FfiConfig\<close>
  (\<open>FfiConfig_Dwebble E\<close> or \<open>FfiConfig_DwebbleWebSocket E\<close>). The member
  \<open>ServerHandle\<close> is assigned the result of \<open>create\<close> before the null test.
\<close>

definition Start ::
  "('c \<Rightarrow> DwebbleWSServerConfig) \<Rightarrow> 'e Boundary \<Rightarrow> 'c FDwebbleWebSocketServerImpl \<Rightarrow> 'e world
     \<Rightarrow> EResult \<times> 'c FDwebbleWebSocketServerImpl \<times> 'e world" where
  "Start tr E s w =
     (if bIsRunning s then (AlreadyRunning, s, w)
      else
        (case dwebble_rws_server_create E (tr (Config s)) w of
           (None, w1) \<Rightarrow> (RuntimeError, s\<lparr>ServerHandle := None\<rparr>, w1)
         | (Some h, w1) \<Rightarrow>
             (case dwebble_rws_server_start E h w1 of
                (Result, w2) \<Rightarrow>
                  (ConvertResult Result,
                   (if Result = DWEBBLE_WS_RESULT_OK
                    then s\<lparr>ServerHandle := Some h, bIsRunning := True\<rparr>
                    else s\<lparr>ServerHandle := Some h\<rparr>),
                   w2))))"

text \<open>
  \<open>Stop\<close>. The source's test \<open>!bIsRunning || !ServerHandle\<close> is the \<open>None\<close> case and
  the inner \<open>if\<close>: both return \<open>NotRunning\<close> before any boundary call.
\<close>

definition Stop ::
  "'e Boundary \<Rightarrow> 'c FDwebbleWebSocketServerImpl \<Rightarrow> 'e world
     \<Rightarrow> EResult \<times> 'c FDwebbleWebSocketServerImpl \<times> 'e world" where
  "Stop E s w =
     (case ServerHandle s of
        None \<Rightarrow> (NotRunning, s, w)
      | Some h \<Rightarrow>
          (if \<not> bIsRunning s then (NotRunning, s, w)
           else
             (case dwebble_rws_server_stop E h w of
                (Result, w1) \<Rightarrow> (ConvertResult Result, s\<lparr>bIsRunning := False\<rparr>, w1))))"

definition IsRunning :: "'c FDwebbleWebSocketServerImpl \<Rightarrow> bool" where
  "IsRunning s = bIsRunning s"

text \<open>
  \<open>GetPort\<close> and \<open>GetConnectionCount\<close> return \<open>int32\<close>; the engine's port is widened,
  its count is cast.
\<close>

definition GetPort ::
  "'e Boundary \<Rightarrow> 'c FDwebbleWebSocketServerImpl \<Rightarrow> 'e world \<Rightarrow> 32 word \<times> 'e world" where
  "GetPort E s w =
     (case ServerHandle s of
        None \<Rightarrow> (0, w)
      | Some h \<Rightarrow> (case dwebble_rws_server_get_port E h w of (p, w1) \<Rightarrow> (ucast p, w1)))"

definition GetConnectionCount ::
  "'e Boundary \<Rightarrow> 'c FDwebbleWebSocketServerImpl \<Rightarrow> 'e world \<Rightarrow> 32 word \<times> 'e world" where
  "GetConnectionCount E s w =
     (case ServerHandle s of
        None \<Rightarrow> (0, w)
      | Some h \<Rightarrow>
          (case dwebble_rws_server_get_connection_count E h w of (n, w1) \<Rightarrow> (ucast n, w1)))"

definition Info ::
  "'e Boundary \<Rightarrow> 'c FDwebbleWebSocketServerImpl \<Rightarrow> 'e world \<Rightarrow> FString \<times> 'e world" where
  "Info E s w =
     (case ServerHandle s of
        None \<Rightarrow> ([], w)
      | Some h \<Rightarrow>
          (case dwebble_rws_server_info E h w of
             (None, w1) \<Rightarrow> ([], w1)
           | (Some InfoStr, w1) \<Rightarrow>
               (let Result = UTF8_TO_TCHAR E InfoStr;
                    w2 = dwebble_rws_free_string E InfoStr w1
                in (Result, w2))))"

definition Send ::
  "'e Boundary \<Rightarrow> 'c FDwebbleWebSocketServerImpl \<Rightarrow> 64 word \<Rightarrow> 8 word list \<Rightarrow> 'e world
     \<Rightarrow> EResult \<times> 'e world" where
  "Send E s ConnId Bytes w =
     (case ServerHandle s of
        None \<Rightarrow> (InvalidHandle, w)
      | Some h \<Rightarrow>
          (case dwebble_rws_server_send E h ConnId Bytes w of
             (Result, w1) \<Rightarrow> (ConvertResult Result, w1)))"

definition SendText ::
  "'e Boundary \<Rightarrow> 'c FDwebbleWebSocketServerImpl \<Rightarrow> 64 word \<Rightarrow> FString \<Rightarrow> 'e world
     \<Rightarrow> EResult \<times> 'e world" where
  "SendText E s ConnId Text w =
     (case ServerHandle s of
        None \<Rightarrow> (InvalidHandle, w)
      | Some h \<Rightarrow>
          (let TextAnsi = StringCast_ANSICHAR E Text
           in case dwebble_rws_server_send_text E h ConnId TextAnsi w of
                (Result, w1) \<Rightarrow> (ConvertResult Result, w1)))"

definition Disconnect ::
  "'e Boundary \<Rightarrow> 'c FDwebbleWebSocketServerImpl \<Rightarrow> 64 word \<Rightarrow> 'e world \<Rightarrow> EResult \<times> 'e world" where
  "Disconnect E s ConnId w =
     (case ServerHandle s of
        None \<Rightarrow> (InvalidHandle, w)
      | Some h \<Rightarrow>
          (case dwebble_rws_server_disconnect E h ConnId w of
             (Result, w1) \<Rightarrow> (ConvertResult Result, w1)))"

text \<open>
  \<open>PollEvent\<close> writes through the reference \<open>OutEvent\<close> only after a successful poll;
  the model takes the caller's value and returns it, changed or not.
  \<open>SetNumUninitialized(data_len)\<close> followed by \<open>Memcpy\<close> of \<open>data_len\<close> bytes from the
  engine's buffer is \<open>take\<close>, as long as the buffer has that many bytes and the length
  fits the \<open>int32\<close> that \<open>SetNumUninitialized\<close> takes. Beyond that the source reads
  past the buffer, or resizes the array to a wrapped length and copies past it: the
  outcome is not defined by the source, and the model returns the unspecified
  \<open>Memcpy_out_of_bounds\<close> of the boundary, about which nothing can be proved.
  \<open>data_len\<close> is a natural number, its C type being declared in the missing header.
\<close>

definition PollEvent ::
  "'e Boundary \<Rightarrow> 'c FDwebbleWebSocketServerImpl \<Rightarrow> FEvent \<Rightarrow> 'e world
     \<Rightarrow> bool \<times> FEvent \<times> 'e world" where
  "PollEvent E s OutEvent w =
     (case ServerHandle s of
        None \<Rightarrow> (False, OutEvent, w)
      | Some h \<Rightarrow>
          (case dwebble_rws_server_poll E h w of
             (None, w1) \<Rightarrow> (False, OutEvent, w1)
           | (Some FfiEvent, w1) \<Rightarrow>
               (True,
                OutEvent\<lparr>EventType := ConvertEventType (event_type FfiEvent),
                          ConnectionId := connection_id FfiEvent,
                          Data := (case data FfiEvent of
                                     None \<Rightarrow> []
                                   | Some buf \<Rightarrow>
                                       if data_len FfiEvent > 0
                                       then (if data_len FfiEvent \<le> length buf
                                                \<and> data_len FfiEvent < 2 ^ 31
                                             then take (data_len FfiEvent) buf
                                             else Memcpy_out_of_bounds E buf (data_len FfiEvent))
                                       else []),
                          ErrorMessage := (case error_message FfiEvent of
                                             None \<Rightarrow> []
                                           | Some msg \<Rightarrow> UTF8_TO_TCHAR E msg)\<rparr>,
                w1)))"

text \<open>
  The destructor: with a handle, \<open>Stop()\<close> (result ignored), then \<open>destroy\<close>, then the
  member is cleared. \<open>Stop\<close> does not assign \<open>ServerHandle\<close>, so the handle destroyed
  is the one tested.
\<close>

definition Destructor ::
  "'e Boundary \<Rightarrow> 'c FDwebbleWebSocketServerImpl \<Rightarrow> 'e world
     \<Rightarrow> 'c FDwebbleWebSocketServerImpl \<times> 'e world" where
  "Destructor E s w =
     (case ServerHandle s of
        None \<Rightarrow> (s, w)
      | Some h \<Rightarrow>
          (case Stop E s w of
             (r, s1, w1) \<Rightarrow> (s1\<lparr>ServerHandle := None\<rparr>, dwebble_rws_server_destroy E h w1)))"

subsection \<open>A host driving one facade\<close>

text \<open>
  The calls a host can make on the interface \<open>IServer\<close> between \<open>Create\<close> and the
  destruction of the object. \<open>step\<close> performs one call and drops its return value;
  \<open>run\<close> performs a sequence; \<open>lifetime\<close> is construction, a sequence of calls and
  destruction, on an engine in state \<open>e\<close> that has seen no call yet.
\<close>

datatype host_op =
    OpStart
  | OpStop
  | OpIsRunning
  | OpGetPort
  | OpGetConnectionCount
  | OpInfo
  | OpSend "64 word" "8 word list"
  | OpSendText "64 word" FString
  | OpDisconnect "64 word"
  | OpPollEvent

fun step ::
  "('c \<Rightarrow> DwebbleWSServerConfig) \<Rightarrow> 'e Boundary \<Rightarrow> host_op
     \<Rightarrow> 'c FDwebbleWebSocketServerImpl \<times> 'e world \<Rightarrow> 'c FDwebbleWebSocketServerImpl \<times> 'e world" where
  "step tr E OpStart (s, w) = snd (Start tr E s w)"
| "step tr E OpStop (s, w) = snd (Stop E s w)"
| "step tr E OpIsRunning (s, w) = (s, w)"
| "step tr E OpGetPort (s, w) = (s, snd (GetPort E s w))"
| "step tr E OpGetConnectionCount (s, w) = (s, snd (GetConnectionCount E s w))"
| "step tr E OpInfo (s, w) = (s, snd (Info E s w))"
| "step tr E (OpSend c bytes) (s, w) = (s, snd (Send E s c bytes w))"
| "step tr E (OpSendText c txt) (s, w) = (s, snd (SendText E s c txt w))"
| "step tr E (OpDisconnect c) (s, w) = (s, snd (Disconnect E s c w))"
| "step tr E OpPollEvent (s, w) = (s, snd (snd (PollEvent E s Default_event w)))"

fun run ::
  "('c \<Rightarrow> DwebbleWSServerConfig) \<Rightarrow> 'e Boundary \<Rightarrow> host_op list
     \<Rightarrow> 'c FDwebbleWebSocketServerImpl \<times> 'e world \<Rightarrow> 'c FDwebbleWebSocketServerImpl \<times> 'e world" where
  "run tr E [] sw = sw"
| "run tr E (op # ops) sw = run tr E ops (step tr E op sw)"

definition fresh :: "'e \<Rightarrow> 'e world" where
  "fresh e = \<lparr>engine_state = e, calls = []\<rparr>"

definition alive ::
  "('c \<Rightarrow> DwebbleWSServerConfig) \<Rightarrow> 'e Boundary \<Rightarrow> 'c \<Rightarrow> host_op list \<Rightarrow> 'e
     \<Rightarrow> 'c FDwebbleWebSocketServerImpl \<times> 'e world" where
  "alive tr E cfg ops e = run tr E ops (Create cfg, fresh e)"


text \<open>What the log says about handles: those created, those destroyed, in order.\<close>

fun created_by :: "rws_call \<Rightarrow> DwebbleWSServerHandle list" where
  "created_by (Call_create cfg (Some h)) = [h]"
| "created_by c = []"

fun destroyed_by :: "rws_call \<Rightarrow> DwebbleWSServerHandle list" where
  "destroyed_by (Call_destroy h) = [h]"
| "destroyed_by c = []"

definition created :: "rws_call list \<Rightarrow> DwebbleWSServerHandle list" where
  "created tr = concat (map created_by tr)"

definition destroyed :: "rws_call list \<Rightarrow> DwebbleWSServerHandle list" where
  "destroyed tr = concat (map destroyed_by tr)"

text \<open>The strings released through \<open>dwebble_rws_free_string\<close>, in order.\<close>

fun released_by :: "rws_call \<Rightarrow> string list" where
  "released_by (Call_free_string str) = [str]"
| "released_by c = []"

definition released :: "rws_call list \<Rightarrow> string list" where
  "released tr = concat (map released_by tr)"


text \<open>
  The answer of the most recent \<open>create\<close> call in a log: \<open>None\<close> when there is no
  such call or when it returned null.
\<close>

fun answer_of :: "rws_call \<Rightarrow> DwebbleWSServerHandle option \<Rightarrow> DwebbleWSServerHandle option" where
  "answer_of (Call_create cfg r) a = r"
| "answer_of c a = a"

definition latest_create :: "rws_call list \<Rightarrow> DwebbleWSServerHandle option" where
  "latest_create tr = fold answer_of tr None"


subsection \<open>An engine test double\<close>

text \<open>
  A scripted engine, for evaluating the facade on concrete inputs. It issues the handles
  1, 2, 3, ... (or null when \<open>create_fails\<close>), accepts every configuration, answers
  \<open>start\<close> and \<open>stop\<close> as scripted, and serves the events of \<open>pending\<close> in order. The
  string conversions are the identity.
\<close>

record double_state =
  issued :: nat
  create_fails :: bool
  start_answer :: DwebbleWSResult
  stop_answer :: DwebbleWSResult
  pending :: "DwebbleWSEvent list"

definition EngineDouble :: "double_state Boundary" where
  "EngineDouble =
     \<lparr>server_create = (\<lambda>cfg e. if create_fails e then (None, e)
                               else (Some (Suc (issued e)), e\<lparr>issued := Suc (issued e)\<rparr>)),
      server_start = (\<lambda>h e. (start_answer e, e)),
      server_stop = (\<lambda>h e. (stop_answer e, e)),
      server_destroy = (\<lambda>h e. e),
      server_get_port = (\<lambda>h e. (8080, e)),
      server_get_connection_count = (\<lambda>h e. (0, e)),
      server_info = (\<lambda>h e. (Some ''127.0.0.1:8080'', e)),
      free_string = (\<lambda>str e. e),
      server_send = (\<lambda>h c bytes e. (DWEBBLE_WS_RESULT_OK, e)),
      server_send_text = (\<lambda>h c txt e. (DWEBBLE_WS_RESULT_OK, e)),
      server_disconnect = (\<lambda>h c e. (DWEBBLE_WS_RESULT_OK, e)),
      server_poll = (\<lambda>h e. case pending e of
                               [] \<Rightarrow> (None, e)
                             | ev # evs \<Rightarrow> (Some ev, e\<lparr>pending := evs\<rparr>)),
      StringCast_ANSICHAR = (\<lambda>str. str),
      UTF8_TO_TCHAR = (\<lambda>str. str),
      Memcpy_out_of_bounds = (\<lambda>buf n. [])\<rparr>"

definition double_init :: double_state where
  "double_init =
     \<lparr>issued = 0, create_fails = False, start_answer = DWEBBLE_WS_RESULT_OK,
      stop_answer = DWEBBLE_WS_RESULT_OK, pending = []\<rparr>"

text \<open>Two configurations used as concrete inputs below.\<close>

definition plain_config :: "FString FServerConfig" where
  "plain_config = Default_config []"

definition chat_config :: "(FString list) FServerConfig" where
  "chat_config = Default_config [''chat'', ''v2'']"

text \<open>A configuration with a certificate path and no key path, and an engine event with
  a payload and an error text.\<close>

definition half_tls_config :: "FString FServerConfig" where
  "half_tls_config = plain_config\<lparr>TlsCertPath := ''server.pem''\<rparr>"

definition text_event :: DwebbleWSEvent where
  "text_event =
     \<lparr>event_type = DWEBBLE_WS_EVENT_TYPE_ERROR, connection_id = 7,
      data = Some [1, 2, 3], data_len = 3, error_message = Some ''boom''\<rparr>"

section \<open>Properties\<close>

subsection \<open>Unfolding the boundary calls\<close>

lemmas rws_defs =
  dwebble_rws_server_create_def dwebble_rws_server_start_def dwebble_rws_server_stop_def
  dwebble_rws_server_destroy_def dwebble_rws_server_get_port_def
  dwebble_rws_server_get_connection_count_def dwebble_rws_server_info_def
  dwebble_rws_free_string_def dwebble_rws_server_send_def dwebble_rws_server_send_text_def
  dwebble_rws_server_disconnect_def dwebble_rws_server_poll_def

lemmas facade_defs =
  Start_def Stop_def GetPort_def GetConnectionCount_def Info_def Send_def SendText_def
  Disconnect_def PollEvent_def

subsection \<open>The result mapping\<close>

lemma ConvertResult_Ok_iff: "ConvertResult r = Ok \<longleftrightarrow> r = DWEBBLE_WS_RESULT_OK"
  by (cases r) simp_all

lemma ConvertResult_same_name:
  "ConvertResult r =
     (case r of
                 DWEBBLE_WS_RESULT_OK \<Rightarrow> Ok
               | DWEBBLE_WS_RESULT_INVALID_HANDLE \<Rightarrow> InvalidHandle
               | DWEBBLE_WS_RESULT_INVALID_PARAM \<Rightarrow> InvalidParam
               | DWEBBLE_WS_RESULT_ALREADY_RUNNING \<Rightarrow> AlreadyRunning
               | DWEBBLE_WS_RESULT_NOT_RUNNING \<Rightarrow> NotRunning
               | DWEBBLE_WS_RESULT_BIND_FAILED \<Rightarrow> BindFailed
               | DWEBBLE_WS_RESULT_TLS_ERROR \<Rightarrow> TlsError
               | DWEBBLE_WS_RESULT_RUNTIME_ERROR \<Rightarrow> RuntimeError
               | DWEBBLE_WS_RESULT_SEND_FAILED \<Rightarrow> SendFailed
               | DWEBBLE_WS_RESULT_CONNECTION_CLOSED \<Rightarrow> ConnectionClosed
               | DWEBBLE_WS_RESULT_unlisted v \<Rightarrow> RuntimeError)"
  by (cases r) simp_all

text \<open>
  C6. The mapping from engine result codes to facade result codes is total: each of the
  ten listed engine codes maps to the facade code of the same name, and every other
  value of the engine's result integer maps to \<open>RuntimeError\<close>. The mapping is a total
  function, so it has a value (one of the ten facade codes) at every input.
\<close>

theorem C6_ConvertResult_total:
  "ConvertResult DWEBBLE_WS_RESULT_OK = Ok
   \<and> ConvertResult DWEBBLE_WS_RESULT_INVALID_HANDLE = InvalidHandle
   \<and> ConvertResult DWEBBLE_WS_RESULT_INVALID_PARAM = InvalidParam
   \<and> ConvertResult DWEBBLE_WS_RESULT_ALREADY_RUNNING = AlreadyRunning
   \<and> ConvertResult DWEBBLE_WS_RESULT_NOT_RUNNING = NotRunning
   \<and> ConvertResult DWEBBLE_WS_RESULT_BIND_FAILED = BindFailed
   \<and> ConvertResult DWEBBLE_WS_RESULT_TLS_ERROR = TlsError
   \<and> ConvertResult DWEBBLE_WS_RESULT_RUNTIME_ERROR = RuntimeError
   \<and> ConvertResult DWEBBLE_WS_RESULT_SEND_FAILED = SendFailed
   \<and> ConvertResult DWEBBLE_WS_RESULT_CONNECTION_CLOSED = ConnectionClosed
   \<and> (\<forall>v. ConvertResult (DWEBBLE_WS_RESULT_unlisted v) = RuntimeError)
   \<and> (\<forall>r. \<exists>c. ConvertResult r = c
          \<and> List.member [Ok, InvalidHandle, InvalidParam, AlreadyRunning, NotRunning,
                BindFailed, TlsError, RuntimeError, SendFailed, ConnectionClosed] c)"
proof -
  have "List.member [Ok, InvalidHandle, InvalidParam, AlreadyRunning, NotRunning,
          BindFailed, TlsError, RuntimeError, SendFailed, ConnectionClosed] (ConvertResult r)" for r
    by (cases r) simp_all
  then show ?thesis by simp
qed

subsection \<open>Start and Stop\<close>

text \<open>
  C2. \<open>Start\<close> on a running facade returns \<open>AlreadyRunning\<close> and changes neither the
  facade nor the engine (no boundary call, so no second handle). On a facade that is not
  running, when the engine's \<open>create\<close> yields a handle \<open>h\<close> and its \<open>start\<close> answers
  \<open>r\<close>, \<open>Start\<close> holds \<open>h\<close>, the running flag is true exactly when \<open>r\<close> is the
  engine's Ok, and the code returned is the one of the same name as \<open>r\<close>: \<open>Ok\<close> for Ok,
  \<open>InvalidHandle\<close> for INVALID_HANDLE, \<open>InvalidParam\<close> for INVALID_PARAM,
  \<open>AlreadyRunning\<close>, \<open>NotRunning\<close>, \<open>BindFailed\<close>, \<open>TlsError\<close>, \<open>RuntimeError\<close>,
  \<open>SendFailed\<close> and \<open>ConnectionClosed\<close> likewise (a value outside the enumeration has
  no name to keep and comes back as \<open>RuntimeError\<close>). When \<open>create\<close> yields no handle,
  \<open>Start\<close> returns \<open>RuntimeError\<close> without calling \<open>start\<close>, and the facade stays not
  running.
\<close>

theorem C2_Start:
  "(bIsRunning s \<longrightarrow> Start tr E s w = (AlreadyRunning, s, w))
   \<and> (\<not> bIsRunning s
        \<longrightarrow> server_create E (tr (Config s)) (engine_state w) = (None, e0)
        \<longrightarrow> Start tr E s w =
              (RuntimeError, s\<lparr>ServerHandle := None\<rparr>,
               \<lparr>engine_state = e0, calls = calls w @ [Call_create (tr (Config s)) None]\<rparr>))
   \<and> (\<not> bIsRunning s
        \<longrightarrow> server_create E (tr (Config s)) (engine_state w) = (Some h, e1)
        \<longrightarrow> server_start E h e1 = (r, e2)
        \<longrightarrow> Start tr E s w =
              (ConvertResult r,
               s\<lparr>ServerHandle := Some h, bIsRunning := (r = DWEBBLE_WS_RESULT_OK)\<rparr>,
               \<lparr>engine_state = e2,
                calls = calls w @ [Call_create (tr (Config s)) (Some h), Call_start h]\<rparr>)
            \<and> (ConvertResult r = Ok \<longleftrightarrow> r = DWEBBLE_WS_RESULT_OK)
            \<and> fst (Start tr E s w) =
              (case r of
                 DWEBBLE_WS_RESULT_OK \<Rightarrow> Ok
               | DWEBBLE_WS_RESULT_INVALID_HANDLE \<Rightarrow> InvalidHandle
               | DWEBBLE_WS_RESULT_INVALID_PARAM \<Rightarrow> InvalidParam
               | DWEBBLE_WS_RESULT_ALREADY_RUNNING \<Rightarrow> AlreadyRunning
               | DWEBBLE_WS_RESULT_NOT_RUNNING \<Rightarrow> NotRunning
               | DWEBBLE_WS_RESULT_BIND_FAILED \<Rightarrow> BindFailed
               | DWEBBLE_WS_RESULT_TLS_ERROR \<Rightarrow> TlsError
               | DWEBBLE_WS_RESULT_RUNTIME_ERROR \<Rightarrow> RuntimeError
               | DWEBBLE_WS_RESULT_SEND_FAILED \<Rightarrow> SendFailed
               | DWEBBLE_WS_RESULT_CONNECTION_CLOSED \<Rightarrow> ConnectionClosed
               | DWEBBLE_WS_RESULT_unlisted v \<Rightarrow> RuntimeError))"
proof -
  have "fst (Start tr E s w) = ConvertResult r"
    if "\<not> bIsRunning s" "server_create E (tr (Config s)) (engine_state w) = (Some h, e1)"
      "server_start E h e1 = (r, e2)"
    using that by (simp add: Start_def rws_defs)
  then show ?thesis
    by (simp add: Start_def rws_defs ConvertResult_Ok_iff ConvertResult_same_name [symmetric])
qed

theorem C2_Start_witness:
  "bIsRunning (Create plain_config\<lparr>ServerHandle := Some 1, bIsRunning := True\<rparr>)
   \<and> Start (FfiConfig_Dwebble EngineDouble) EngineDouble
        (Create plain_config\<lparr>ServerHandle := Some 1, bIsRunning := True\<rparr>) (fresh double_init)
      = (AlreadyRunning, Create plain_config\<lparr>ServerHandle := Some 1, bIsRunning := True\<rparr>,
         fresh double_init)
   \<and> \<not> bIsRunning (Create plain_config)
   \<and> fst (Start (FfiConfig_Dwebble EngineDouble) EngineDouble (Create plain_config)
        (fresh (double_init\<lparr>start_answer := DWEBBLE_WS_RESULT_BIND_FAILED\<rparr>))) = BindFailed
   \<and> \<not> bIsRunning (fst (snd (Start (FfiConfig_Dwebble EngineDouble) EngineDouble
        (Create plain_config)
        (fresh (double_init\<lparr>start_answer := DWEBBLE_WS_RESULT_BIND_FAILED\<rparr>)))))
   \<and> fst (Start (FfiConfig_Dwebble EngineDouble) EngineDouble (Create plain_config)
        (fresh (double_init\<lparr>start_answer := DWEBBLE_WS_RESULT_TLS_ERROR\<rparr>))) = TlsError
   \<and> Start (FfiConfig_Dwebble EngineDouble) EngineDouble (Create plain_config) (fresh double_init)
      = (Ok, \<lparr>Config = plain_config, ServerHandle = Some 1, bIsRunning = True\<rparr>,
         \<lparr>engine_state = double_init\<lparr>issued := 1\<rparr>,
          calls = [Call_create (FfiConfig_Dwebble EngineDouble plain_config) (Some 1),
                   Call_start 1]\<rparr>)
   \<and> Start (FfiConfig_Dwebble EngineDouble) EngineDouble (Create plain_config)
        (fresh (double_init\<lparr>create_fails := True\<rparr>))
      = (RuntimeError, Create plain_config,
         \<lparr>engine_state = double_init\<lparr>create_fails := True\<rparr>,
          calls = [Call_create (FfiConfig_Dwebble EngineDouble plain_config) None]\<rparr>)"
  using C2_Start [where s = "Create plain_config\<lparr>ServerHandle := Some 1, bIsRunning := True\<rparr>"
          and tr = "FfiConfig_Dwebble EngineDouble" and E = EngineDouble
          and w = "fresh double_init"]
        C2_Start [where s = "Create plain_config" and tr = "FfiConfig_Dwebble EngineDouble"
          and E = EngineDouble
          and w = "fresh (double_init\<lparr>start_answer := DWEBBLE_WS_RESULT_BIND_FAILED\<rparr>)"
          and h = 1 and r = DWEBBLE_WS_RESULT_BIND_FAILED
          and ?e1.0 = "double_init\<lparr>start_answer := DWEBBLE_WS_RESULT_BIND_FAILED, issued := 1\<rparr>"
          and ?e2.0 = "double_init\<lparr>start_answer := DWEBBLE_WS_RESULT_BIND_FAILED, issued := 1\<rparr>"]
        C2_Start [where s = "Create plain_config" and tr = "FfiConfig_Dwebble EngineDouble"
          and E = EngineDouble
          and w = "fresh (double_init\<lparr>start_answer := DWEBBLE_WS_RESULT_TLS_ERROR\<rparr>)"
          and h = 1 and r = DWEBBLE_WS_RESULT_TLS_ERROR
          and ?e1.0 = "double_init\<lparr>start_answer := DWEBBLE_WS_RESULT_TLS_ERROR, issued := 1\<rparr>"
          and ?e2.0 = "double_init\<lparr>start_answer := DWEBBLE_WS_RESULT_TLS_ERROR, issued := 1\<rparr>"]
        C2_Start [where s = "Create plain_config" and tr = "FfiConfig_Dwebble EngineDouble"
          and E = EngineDouble and w = "fresh double_init"
          and h = 1 and r = DWEBBLE_WS_RESULT_OK
          and ?e1.0 = "double_init\<lparr>issued := 1\<rparr>" and ?e2.0 = "double_init\<lparr>issued := 1\<rparr>"]
        C2_Start [where s = "Create plain_config" and tr = "FfiConfig_Dwebble EngineDouble"
          and E = EngineDouble and w = "fresh (double_init\<lparr>create_fails := True\<rparr>)"
          and ?e0.0 = "double_init\<lparr>create_fails := True\<rparr>"]
  by (simp add: Create_def EngineDouble_def double_init_def fresh_def)



subsection \<open>The port\<close>

lemma ucast_port_of_int: "(ucast (p :: 32 word) :: 16 word) = word_of_int (sint p)"
  by (rule bit_word_eqI) (auto simp add: bit_simps)

lemma ucast_port_minus_one: "(ucast (- 1 :: 32 word) :: 16 word) = 65535"
  by (simp only: ucast_port_of_int) simp

lemma ucast_port: "uint (ucast (p :: 32 word) :: 16 word) = sint p mod 65536"
proof -
  note eq = ucast_port_of_int [of p]
  have "uint (word_of_int (sint p) :: 16 word) = sint p mod 2 ^ LENGTH(16)"
    by (rule uint_word_of_int)
  then show ?thesis
    by (simp only: eq) simp
qed

lemma Start_first_call:
  "\<not> bIsRunning s \<Longrightarrow>
     \<exists>h rest. calls (snd (snd (Start tr E s w))) = calls w @ Call_create (tr (Config s)) h # rest"
  by (auto simp add: Start_def rws_defs split: prod.splits option.splits)

lemma Start_InvalidParam_from_engine:
  "fst (Start tr E s w) = InvalidParam \<Longrightarrow>
     \<exists>h e1 e2. server_create E (tr (Config s)) (engine_state w) = (Some h, e1)
        \<and> server_start E h e1 = (DWEBBLE_WS_RESULT_INVALID_PARAM, e2)"
proof -
  assume a: "fst (Start tr E s w) = InvalidParam"
  have conv: "ConvertResult r = InvalidParam \<Longrightarrow> r = DWEBBLE_WS_RESULT_INVALID_PARAM" for r
    by (cases r) simp_all
  from a show ?thesis
    by (auto simp add: Start_def rws_defs split: prod.splits option.splits if_splits dest: conv)
qed

text \<open>
  C10. The configured \<open>int32\<close> port reaches the engine as a \<open>uint16_t\<close>: its value
  modulo 65536, for every port (65536 becomes 0, the ephemeral port; -1 becomes 65535).
  \<open>Start\<close> does not validate it: a facade that is not running always calls \<open>create\<close>
  with the translated configuration, and \<open>Start\<close> returns \<open>InvalidParam\<close> only when the
  engine's own \<open>start\<close> answered so.
\<close>

theorem C10_port_truncation:
  "uint (port (FfiConfig_Dwebble E c)) = sint (Port c) mod 65536
   \<and> uint (port (FfiConfig_DwebbleWebSocket E c')) = sint (Port c') mod 65536
   \<and> port (FfiConfig_Dwebble E (c\<lparr>Port := 65536\<rparr>)) = 0
   \<and> port (FfiConfig_DwebbleWebSocket E (c'\<lparr>Port := 65536\<rparr>)) = 0
   \<and> port (FfiConfig_Dwebble E (c\<lparr>Port := - 1\<rparr>)) = 65535
   \<and> port (FfiConfig_DwebbleWebSocket E (c'\<lparr>Port := - 1\<rparr>)) = 65535
   \<and> (\<not> bIsRunning s \<longrightarrow>
        (\<exists>h rest. calls (snd (snd (Start tr E s w))) = calls w @ Call_create (tr (Config s)) h # rest))
   \<and> (fst (Start tr E s w) = InvalidParam \<longrightarrow>
        (\<exists>h e1 e2. server_create E (tr (Config s)) (engine_state w) = (Some h, e1)
           \<and> server_start E h e1 = (DWEBBLE_WS_RESULT_INVALID_PARAM, e2)))"
proof -
  have "uint (port (FfiConfig_Dwebble E c)) = sint (Port c) mod 65536"
    by (simp add: FfiConfig_Dwebble_def Let_def ucast_port)
  moreover have "uint (port (FfiConfig_DwebbleWebSocket E c')) = sint (Port c') mod 65536"
    by (simp add: FfiConfig_DwebbleWebSocket_def Let_def ucast_port)
  moreover have "port (FfiConfig_Dwebble E (c\<lparr>Port := 65536\<rparr>)) = 0"
    "port (FfiConfig_Dwebble E (c\<lparr>Port := - 1\<rparr>)) = 65535"
    by (simp_all add: FfiConfig_Dwebble_def Let_def ucast_port_minus_one)
  moreover have "port (FfiConfig_DwebbleWebSocket E (c'\<lparr>Port := 65536\<rparr>)) = 0"
    "port (FfiConfig_DwebbleWebSocket E (c'\<lparr>Port := - 1\<rparr>)) = 65535"
    by (simp_all add: FfiConfig_DwebbleWebSocket_def Let_def ucast_port_minus_one)
  ultimately show ?thesis
    using Start_first_call [of s tr E w] Start_InvalidParam_from_engine [of tr E s w]
    by blast
qed

theorem C10_port_truncation_witness:
  "\<not> bIsRunning (Create (plain_config\<lparr>Port := 70000\<rparr>))
   \<and> calls (snd (snd (Start (FfiConfig_Dwebble EngineDouble) EngineDouble
        (Create (plain_config\<lparr>Port := 70000\<rparr>)) (fresh double_init))))
      = [Call_create \<lparr>port = 4464, bind_address = Some ''127.0.0.1'', subprotocols = None,
                       tls_cert_path = None, tls_key_path = None\<rparr> (Some 1),
         Call_start 1]
   \<and> fst (Start (FfiConfig_Dwebble EngineDouble) EngineDouble
        (Create (plain_config\<lparr>Port := 70000\<rparr>))
        (fresh (double_init\<lparr>start_answer := DWEBBLE_WS_RESULT_INVALID_PARAM\<rparr>))) = InvalidParam
   \<and> server_start EngineDouble 1 (double_init\<lparr>start_answer := DWEBBLE_WS_RESULT_INVALID_PARAM, issued := 1\<rparr>)
      = (DWEBBLE_WS_RESULT_INVALID_PARAM,
         double_init\<lparr>start_answer := DWEBBLE_WS_RESULT_INVALID_PARAM, issued := 1\<rparr>)"
  using C10_port_truncation [where s = "Create (plain_config\<lparr>Port := 70000\<rparr>)"
          and tr = "FfiConfig_Dwebble EngineDouble" and E = EngineDouble and w = "fresh double_init"]
        C10_port_truncation [where s = "Create (plain_config\<lparr>Port := 70000\<rparr>)"
          and tr = "FfiConfig_Dwebble EngineDouble" and E = EngineDouble
          and w = "fresh (double_init\<lparr>start_answer := DWEBBLE_WS_RESULT_INVALID_PARAM\<rparr>)"]
  by (simp add: Start_def rws_defs Create_def EngineDouble_def double_init_def fresh_def
        FfiConfig_Dwebble_def plain_config_def Default_config_def)

subsection \<open>Configuration translation\<close>

lemma step_Config: "Config (fst (step tr E op (s, w))) = Config s"
  by (cases op) (auto simp add: Start_def Stop_def rws_defs split: prod.splits option.splits)

lemma run_Config: "Config (fst (run tr E ops (s, w))) = Config s"
proof (induction ops arbitrary: s w)
  case Nil
  show ?case by simp
next
  case (Cons op ops)
  obtain s1 w1 where st: "step tr E op (s, w) = (s1, w1)"
    by (cases "step tr E op (s, w)")
  have "Config s1 = Config s"
    using step_Config [of tr E op s w] st by simp
  with Cons.IH [of s1 w1] st show ?case by simp
qed

lemma Join_closed: "Join (x # xs) sep = x @ concat (map (\<lambda>y. sep @ y) xs)"
  by (induction xs arbitrary: x) simp_all

lemma Start_create_answer:
  "\<not> bIsRunning s \<Longrightarrow>
     ServerHandle (fst (snd (Start tr E s w))) = fst (server_create E (tr (Config s)) (engine_state w))"
  by (simp add: Start_def rws_defs split: prod.splits option.splits)

text \<open>
  C9. Configuration translation hands the engine a null pointer, never a pointer to an
  empty string, for an empty subprotocol list, for an empty certificate path and for an
  empty key path. A non-empty subprotocol list is handed over as one string: its first
  element, then for every further element a comma and that element (for the variant
  whose \<open>Subprotocols\<close> is already one string, that string). The whole translated
  structure is given field by field, and it is what the engine receives: a \<open>Start\<close> on a
  facade that is not running makes \<open>create\<close> its first boundary call, with exactly this
  structure, and holds what \<open>create\<close> answers for it. The translation is a function of
  the configuration; \<open>Start\<close>, and every sequence of calls on the facade, leaves the
  stored configuration as it was.
\<close>

theorem C9_config_translation:
  "FfiConfig_DwebbleWebSocket E c =
     \<lparr>port = ucast (Port c),
      bind_address = Some (StringCast_ANSICHAR E (BindAddress c)),
      subprotocols =
        (case Subprotocols c of
           [] \<Rightarrow> None
         | x # xs \<Rightarrow> Some (StringCast_ANSICHAR E (x @ concat (map (\<lambda>y. '','' @ y) xs)))),
      tls_cert_path =
        (if TlsCertPath c = [] then None else Some (StringCast_ANSICHAR E (TlsCertPath c))),
      tls_key_path =
        (if TlsKeyPath c = [] then None else Some (StringCast_ANSICHAR E (TlsKeyPath c)))\<rparr>
   \<and> FfiConfig_Dwebble E d =
     \<lparr>port = ucast (Port d),
      bind_address = Some (StringCast_ANSICHAR E (BindAddress d)),
      subprotocols =
        (if Subprotocols d = [] then None else Some (StringCast_ANSICHAR E (Subprotocols d))),
      tls_cert_path =
        (if TlsCertPath d = [] then None else Some (StringCast_ANSICHAR E (TlsCertPath d))),
      tls_key_path =
        (if TlsKeyPath d = [] then None else Some (StringCast_ANSICHAR E (TlsKeyPath d)))\<rparr>
   \<and> subprotocols (FfiConfig_DwebbleWebSocket E c) =
     (if Subprotocols c = [] then None
      else Some (StringCast_ANSICHAR E (Join (Subprotocols c) '','')))
   \<and> tls_cert_path (FfiConfig_DwebbleWebSocket E c) =
     (if TlsCertPath c = [] then None else Some (StringCast_ANSICHAR E (TlsCertPath c)))
   \<and> tls_key_path (FfiConfig_DwebbleWebSocket E c) =
     (if TlsKeyPath c = [] then None else Some (StringCast_ANSICHAR E (TlsKeyPath c)))
   \<and> subprotocols (FfiConfig_Dwebble E d) =
     (if Subprotocols d = [] then None else Some (StringCast_ANSICHAR E (Subprotocols d)))
   \<and> tls_cert_path (FfiConfig_Dwebble E d) =
     (if TlsCertPath d = [] then None else Some (StringCast_ANSICHAR E (TlsCertPath d)))
   \<and> tls_key_path (FfiConfig_Dwebble E d) =
     (if TlsKeyPath d = [] then None else Some (StringCast_ANSICHAR E (TlsKeyPath d)))
   \<and> Join [] '','' = []
   \<and> Join (x # xs) '','' = x @ concat (map (\<lambda>y. '','' @ y) xs)
   \<and> Join [a, b, c3] '','' = a @ '','' @ b @ '','' @ c3
   \<and> FfiConfig_DwebbleWebSocket EngineDouble chat_config =
       \<lparr>port = 0, bind_address = Some ''127.0.0.1'', subprotocols = Some ''chat,v2'',
        tls_cert_path = None, tls_key_path = None\<rparr>
   \<and> (\<not> bIsRunning sa \<longrightarrow>
        (\<exists>h rest. calls (snd (snd (Start (FfiConfig_DwebbleWebSocket E) E sa w))) =
            calls w @ Call_create (FfiConfig_DwebbleWebSocket E (Config sa)) h # rest)
        \<and> ServerHandle (fst (snd (Start (FfiConfig_DwebbleWebSocket E) E sa w))) =
            fst (server_create E (FfiConfig_DwebbleWebSocket E (Config sa)) (engine_state w)))
   \<and> (\<not> bIsRunning sb \<longrightarrow>
        (\<exists>h rest. calls (snd (snd (Start (FfiConfig_Dwebble E) E sb w))) =
            calls w @ Call_create (FfiConfig_Dwebble E (Config sb)) h # rest)
        \<and> ServerHandle (fst (snd (Start (FfiConfig_Dwebble E) E sb w))) =
            fst (server_create E (FfiConfig_Dwebble E (Config sb)) (engine_state w)))
   \<and> Config (fst (snd (Start tr E s w))) = Config s
   \<and> Config (fst (run tr E ops (s, w))) = Config s"
proof -
  have ws: "FfiConfig_DwebbleWebSocket E c =
     \<lparr>port = ucast (Port c),
      bind_address = Some (StringCast_ANSICHAR E (BindAddress c)),
      subprotocols =
        (case Subprotocols c of
           [] \<Rightarrow> None
         | x # xs \<Rightarrow> Some (StringCast_ANSICHAR E (x @ concat (map (\<lambda>y. '','' @ y) xs)))),
      tls_cert_path =
        (if TlsCertPath c = [] then None else Some (StringCast_ANSICHAR E (TlsCertPath c))),
      tls_key_path =
        (if TlsKeyPath c = [] then None else Some (StringCast_ANSICHAR E (TlsKeyPath c)))\<rparr>"
  proof -
    have comma: "((@) '','') = ((#) CHR '','')"
      by (simp add: fun_eq_iff)
    show ?thesis
      by (cases "Subprotocols c")
         (simp_all add: FfiConfig_DwebbleWebSocket_def Let_def Join_closed comma)
  qed
  have dw: "FfiConfig_Dwebble E d =
     \<lparr>port = ucast (Port d),
      bind_address = Some (StringCast_ANSICHAR E (BindAddress d)),
      subprotocols =
        (if Subprotocols d = [] then None else Some (StringCast_ANSICHAR E (Subprotocols d))),
      tls_cert_path =
        (if TlsCertPath d = [] then None else Some (StringCast_ANSICHAR E (TlsCertPath d))),
      tls_key_path =
        (if TlsKeyPath d = [] then None else Some (StringCast_ANSICHAR E (TlsKeyPath d)))\<rparr>"
    by (simp add: FfiConfig_Dwebble_def Let_def)
  have fields:
    "subprotocols (FfiConfig_DwebbleWebSocket E c) =
       (if Subprotocols c = [] then None
        else Some (StringCast_ANSICHAR E (Join (Subprotocols c) '','')))"
    "tls_cert_path (FfiConfig_DwebbleWebSocket E c) =
       (if TlsCertPath c = [] then None else Some (StringCast_ANSICHAR E (TlsCertPath c)))"
    "tls_key_path (FfiConfig_DwebbleWebSocket E c) =
       (if TlsKeyPath c = [] then None else Some (StringCast_ANSICHAR E (TlsKeyPath c)))"
    "subprotocols (FfiConfig_Dwebble E d) =
       (if Subprotocols d = [] then None else Some (StringCast_ANSICHAR E (Subprotocols d)))"
    "tls_cert_path (FfiConfig_Dwebble E d) =
       (if TlsCertPath d = [] then None else Some (StringCast_ANSICHAR E (TlsCertPath d)))"
    "tls_key_path (FfiConfig_Dwebble E d) =
       (if TlsKeyPath d = [] then None else Some (StringCast_ANSICHAR E (TlsKeyPath d)))"
    by (simp_all add: FfiConfig_DwebbleWebSocket_def FfiConfig_Dwebble_def Let_def)
  have joins: "Join [] '','' = []"
    "Join (x # xs) '','' = x @ concat (map (\<lambda>y. '','' @ y) xs)"
    "Join [a, b, c3] '','' = a @ '','' @ b @ '','' @ c3"
    by (simp_all add: Join_closed)
  have chat: "FfiConfig_DwebbleWebSocket EngineDouble chat_config =
       \<lparr>port = 0, bind_address = Some ''127.0.0.1'', subprotocols = Some ''chat,v2'',
        tls_cert_path = None, tls_key_path = None\<rparr>"
    by (simp add: FfiConfig_DwebbleWebSocket_def chat_config_def Default_config_def
          EngineDouble_def)
  have sa: "\<not> bIsRunning sa \<longrightarrow>
        (\<exists>h rest. calls (snd (snd (Start (FfiConfig_DwebbleWebSocket E) E sa w))) =
            calls w @ Call_create (FfiConfig_DwebbleWebSocket E (Config sa)) h # rest)
        \<and> ServerHandle (fst (snd (Start (FfiConfig_DwebbleWebSocket E) E sa w))) =
            fst (server_create E (FfiConfig_DwebbleWebSocket E (Config sa)) (engine_state w))"
    using Start_first_call [of sa "FfiConfig_DwebbleWebSocket E" E w]
      Start_create_answer [of sa "FfiConfig_DwebbleWebSocket E" E w]
    by blast
  have sb: "\<not> bIsRunning sb \<longrightarrow>
        (\<exists>h rest. calls (snd (snd (Start (FfiConfig_Dwebble E) E sb w))) =
            calls w @ Call_create (FfiConfig_Dwebble E (Config sb)) h # rest)
        \<and> ServerHandle (fst (snd (Start (FfiConfig_Dwebble E) E sb w))) =
            fst (server_create E (FfiConfig_Dwebble E (Config sb)) (engine_state w))"
    using Start_first_call [of sb "FfiConfig_Dwebble E" E w]
      Start_create_answer [of sb "FfiConfig_Dwebble E" E w]
    by blast
  have cfg: "Config (fst (snd (Start tr E s w))) = Config s"
    using step_Config [of tr E OpStart s w] by simp
  note run_Config [of tr E ops s w]
  with ws dw fields joins chat sa sb cfg show ?thesis
    by (intro conjI)
qed

theorem C9_config_translation_witness:
  "\<not> bIsRunning (Create chat_config)
   \<and> Subprotocols chat_config = [''chat'', ''v2'']
   \<and> calls (snd (snd (Start (FfiConfig_DwebbleWebSocket EngineDouble) EngineDouble
        (Create chat_config) (fresh double_init))))
      = [Call_create
           \<lparr>port = 0, bind_address = Some ''127.0.0.1'', subprotocols = Some ''chat,v2'',
            tls_cert_path = None, tls_key_path = None\<rparr> (Some 1),
         Call_start 1]
   \<and> \<not> bIsRunning (Create plain_config)
   \<and> calls (snd (snd (Start (FfiConfig_Dwebble EngineDouble) EngineDouble
        (Create plain_config) (fresh double_init))))
      = [Call_create
           \<lparr>port = 0, bind_address = Some ''127.0.0.1'', subprotocols = None,
            tls_cert_path = None, tls_key_path = None\<rparr> (Some 1),
         Call_start 1]
   \<and> ServerHandle (fst (snd (Start (FfiConfig_DwebbleWebSocket EngineDouble) EngineDouble
        (Create chat_config) (fresh double_init)))) = Some 1"
  using C9_config_translation [where E = EngineDouble and sa = "Create chat_config"
          and sb = "Create plain_config" and w = "fresh double_init"]
  by (simp add: Start_def rws_defs Create_def EngineDouble_def double_init_def fresh_def
        FfiConfig_Dwebble_def FfiConfig_DwebbleWebSocket_def chat_config_def plain_config_def
        Default_config_def)

subsection \<open>Polling\<close>

text \<open>
  C8. \<open>PollEvent\<close> tells an empty message from an empty queue: when the engine dequeues
  a \<open>MessageReceived\<close> event of length zero, \<open>PollEvent\<close> returns true with an event of
  type \<open>MessageReceived\<close> and an empty payload; it returns false exactly when the facade
  holds no handle or the engine's \<open>poll\<close> reports no event, and then the caller's event
  is untouched. It makes at most one boundary call, the \<open>poll\<close> itself, and has no loop:
  it is a total function.
\<close>

theorem C8_PollEvent_empty_message:
  "(ServerHandle s = Some h \<longrightarrow> server_poll E h (engine_state w) = (Some ev, e1)
      \<longrightarrow> event_type ev = DWEBBLE_WS_EVENT_TYPE_MESSAGE_RECEIVED \<longrightarrow> data_len ev = 0
      \<longrightarrow> (\<exists>out. PollEvent E s OutEvent w =
                  (True, out, \<lparr>engine_state = e1, calls = calls w @ [Call_poll h]\<rparr>)
              \<and> EventType out = MessageReceived \<and> Data out = []
              \<and> ConnectionId out = connection_id ev))
   \<and> (fst (PollEvent E s OutEvent w) = False \<longleftrightarrow>
        (case ServerHandle s of
           None \<Rightarrow> True
         | Some h' \<Rightarrow> fst (server_poll E h' (engine_state w)) = None))
   \<and> (fst (PollEvent E s OutEvent w) = False \<longrightarrow> fst (snd (PollEvent E s OutEvent w)) = OutEvent)
   \<and> calls (snd (snd (PollEvent E s OutEvent w))) =
        calls w @ (case ServerHandle s of None \<Rightarrow> [] | Some h' \<Rightarrow> [Call_poll h'])"
  by (auto simp add: PollEvent_def rws_defs split: prod.splits option.splits)

theorem C8_PollEvent_empty_message_witness:
  "ServerHandle (Create plain_config\<lparr>ServerHandle := Some 1\<rparr>) = Some 1
   \<and> PollEvent EngineDouble (Create plain_config\<lparr>ServerHandle := Some 1\<rparr>) Default_event
        (fresh (double_init\<lparr>pending :=
           [\<lparr>event_type = DWEBBLE_WS_EVENT_TYPE_MESSAGE_RECEIVED, connection_id = 5,
             data = Some [], data_len = 0, error_message = None\<rparr>]\<rparr>))
      = (True,
         \<lparr>EventType = MessageReceived, ConnectionId = 5, Data = [], ErrorMessage = []\<rparr>,
         \<lparr>engine_state = double_init, calls = [Call_poll 1]\<rparr>)
   \<and> fst (PollEvent EngineDouble (Create plain_config\<lparr>ServerHandle := Some 1\<rparr>) Default_event
        (fresh double_init)) = False
   \<and> fst (snd (PollEvent EngineDouble (Create plain_config\<lparr>ServerHandle := Some 1\<rparr>)
        Default_event (fresh double_init))) = Default_event"
  using C8_PollEvent_empty_message
          [where s = "Create plain_config\<lparr>ServerHandle := Some 1\<rparr>" and h = 1
             and E = EngineDouble and OutEvent = Default_event
             and w = "fresh (double_init\<lparr>pending :=
                 [\<lparr>event_type = DWEBBLE_WS_EVENT_TYPE_MESSAGE_RECEIVED, connection_id = 5,
                   data = Some [], data_len = 0, error_message = None\<rparr>]\<rparr>)"
             and ev = "\<lparr>event_type = DWEBBLE_WS_EVENT_TYPE_MESSAGE_RECEIVED, connection_id = 5,
                   data = Some [], data_len = 0, error_message = None\<rparr>"
             and ?e1.0 = double_init]
        C8_PollEvent_empty_message
          [where s = "Create plain_config\<lparr>ServerHandle := Some 1\<rparr>"
             and E = EngineDouble and OutEvent = Default_event and w = "fresh double_init"]
  by (simp add: PollEvent_def rws_defs Create_def EngineDouble_def double_init_def fresh_def
        Default_event_def)

subsection \<open>Invariants of a facade driven by a host\<close>

lemma latest_create_append [simp]:
  "latest_create (tr @ cs) = fold answer_of cs (latest_create tr)"
  by (simp add: latest_create_def)

lemma latest_create_Nil [simp]: "latest_create [] = None"
  by (simp add: latest_create_def)

lemma destroyed_append [simp]: "destroyed (tr @ cs) = destroyed tr @ destroyed cs"
  by (simp add: destroyed_def)

lemma destroyed_Nil [simp]: "destroyed [] = []"
  by (simp add: destroyed_def)

lemma destroyed_Cons [simp]: "destroyed (c # cs) = destroyed_by c @ destroyed cs"
  by (simp add: destroyed_def)

lemma created_append [simp]: "created (tr @ cs) = created tr @ created cs"
  by (simp add: created_def)

lemma created_Nil [simp]: "created [] = []"
  by (simp add: created_def)

lemma created_Cons [simp]: "created (c # cs) = created_by c @ created cs"
  by (simp add: created_def)

text \<open>
  One call of the host keeps: the facade holds what the latest \<open>create\<close> answered, nothing
  has been destroyed, and a running facade holds a handle.
\<close>

lemma step_invariant:
  assumes "ServerHandle s = latest_create (calls w)"
    and "destroyed (calls w) = []"
    and "bIsRunning s \<longrightarrow> ServerHandle s \<noteq> None"
    and "step tr E op (s, w) = (s', w')"
  shows "ServerHandle s' = latest_create (calls w') \<and> destroyed (calls w') = []
         \<and> (bIsRunning s' \<longrightarrow> ServerHandle s' \<noteq> None)"
  using assms
  by (cases op)
     (auto simp add: facade_defs rws_defs Let_def split: prod.splits option.splits if_splits)

lemma run_invariant:
  assumes "ServerHandle s = latest_create (calls w)"
    and "destroyed (calls w) = []"
    and "bIsRunning s \<longrightarrow> ServerHandle s \<noteq> None"
    and "run tr E ops (s, w) = (s', w')"
  shows "ServerHandle s' = latest_create (calls w') \<and> destroyed (calls w') = []
         \<and> (bIsRunning s' \<longrightarrow> ServerHandle s' \<noteq> None)"
  using assms
proof (induction ops arbitrary: s w)
  case Nil
  then show ?case by simp
next
  case (Cons op ops)
  obtain s1 w1 where st: "step tr E op (s, w) = (s1, w1)"
    by (cases "step tr E op (s, w)")
  from step_invariant [OF Cons.prems(1) Cons.prems(2) Cons.prems(3) st]
  have inv1: "ServerHandle s1 = latest_create (calls w1)" "destroyed (calls w1) = []"
    "bIsRunning s1 \<longrightarrow> ServerHandle s1 \<noteq> None"
    by blast+
  from Cons.prems(4) st have "run tr E ops (s1, w1) = (s', w')"
    by simp
  from Cons.IH [OF inv1 this] show ?case .
qed

lemma alive_invariant:
  assumes "alive tr E cfg ops e = (s, w)"
  shows "ServerHandle s = latest_create (calls w) \<and> destroyed (calls w) = []
         \<and> (bIsRunning s \<longrightarrow> ServerHandle s \<noteq> None)"
proof -
  have r: "run tr E ops (Create cfg, fresh e) = (s, w)"
    using assms by (simp add: alive_def)
  show ?thesis
    by (rule run_invariant [OF _ _ _ r]) (simp_all add: Create_def fresh_def)
qed

text \<open>
  C7. A facade that holds no handle, in any state a host can bring it to from \<open>Create\<close>,
  reports itself not running; \<open>Send\<close>, \<open>SendText\<close> and \<open>Disconnect\<close> return
  \<open>InvalidHandle\<close> for every connection id and payload; \<open>GetPort\<close> and
  \<open>GetConnectionCount\<close> return 0; \<open>Info\<close> returns the empty string; \<open>PollEvent\<close>
  returns false; and its destruction changes nothing. None of these makes a boundary
  call: the engine state and the log of calls are returned as they were.
\<close>

theorem C7_no_handle:
  "alive tr E cfg ops e = (s, w) \<longrightarrow> ServerHandle s = None \<longrightarrow>
     \<not> IsRunning s
     \<and> Send E s c bytes w = (InvalidHandle, w)
     \<and> SendText E s c txt w = (InvalidHandle, w)
     \<and> Disconnect E s c w = (InvalidHandle, w)
     \<and> GetPort E s w = (0, w)
     \<and> GetConnectionCount E s w = (0, w)
     \<and> Info E s w = ([], w)
     \<and> PollEvent E s OutEvent w = (False, OutEvent, w)
     \<and> Destructor E s w = (s, w)"
proof (intro impI)
  assume a: "alive tr E cfg ops e = (s, w)" and n: "ServerHandle s = None"
  from alive_invariant [OF a] n have "\<not> bIsRunning s"
    by simp
  with n show "\<not> IsRunning s
     \<and> Send E s c bytes w = (InvalidHandle, w)
     \<and> SendText E s c txt w = (InvalidHandle, w)
     \<and> Disconnect E s c w = (InvalidHandle, w)
     \<and> GetPort E s w = (0, w)
     \<and> GetConnectionCount E s w = (0, w)
     \<and> Info E s w = ([], w)
     \<and> PollEvent E s OutEvent w = (False, OutEvent, w)
     \<and> Destructor E s w = (s, w)"
    by (simp add: facade_defs IsRunning_def Destructor_def)
qed

theorem C7_no_handle_witness:
  "ServerHandle (fst (alive (FfiConfig_Dwebble EngineDouble) EngineDouble plain_config [OpStart]
       (double_init\<lparr>create_fails := True\<rparr>))) = None
   \<and> calls (snd (alive (FfiConfig_Dwebble EngineDouble) EngineDouble plain_config [OpStart]
       (double_init\<lparr>create_fails := True\<rparr>)))
      = [Call_create \<lparr>port = 0, bind_address = Some ''127.0.0.1'', subprotocols = None,
                       tls_cert_path = None, tls_key_path = None\<rparr> None]
   \<and> \<not> IsRunning (fst (alive (FfiConfig_Dwebble EngineDouble) EngineDouble plain_config [OpStart]
       (double_init\<lparr>create_fails := True\<rparr>)))
   \<and> fst (Send EngineDouble
        (fst (alive (FfiConfig_Dwebble EngineDouble) EngineDouble plain_config [OpStart]
           (double_init\<lparr>create_fails := True\<rparr>))) 5 [1, 2, 3]
        (snd (alive (FfiConfig_Dwebble EngineDouble) EngineDouble plain_config [OpStart]
           (double_init\<lparr>create_fails := True\<rparr>)))) = InvalidHandle
   \<and> fst (PollEvent EngineDouble
        (fst (alive (FfiConfig_Dwebble EngineDouble) EngineDouble plain_config [OpStart]
           (double_init\<lparr>create_fails := True\<rparr>))) Default_event
        (snd (alive (FfiConfig_Dwebble EngineDouble) EngineDouble plain_config [OpStart]
           (double_init\<lparr>create_fails := True\<rparr>)))) = False"
proof -
  let ?a = "alive (FfiConfig_Dwebble EngineDouble) EngineDouble plain_config [OpStart]
       (double_init\<lparr>create_fails := True\<rparr>)"
  have a: "?a = (fst ?a, snd ?a)"
    by simp
  have n: "ServerHandle (fst ?a) = None"
    by (simp add: alive_def Start_def rws_defs Create_def fresh_def EngineDouble_def
          double_init_def)
  have c: "calls (snd ?a)
      = [Call_create \<lparr>port = 0, bind_address = Some ''127.0.0.1'', subprotocols = None,
                       tls_cert_path = None, tls_key_path = None\<rparr> None]"
    by (simp add: alive_def Start_def rws_defs Create_def fresh_def EngineDouble_def
          double_init_def FfiConfig_Dwebble_def plain_config_def Default_config_def)
  from C7_no_handle [where tr = "FfiConfig_Dwebble EngineDouble" and E = EngineDouble
        and cfg = plain_config and ops = "[OpStart]"
        and e = "double_init\<lparr>create_fails := True\<rparr>"
        and s = "fst ?a" and w = "snd ?a" and c = 5 and bytes = "[1, 2, 3]"
        and OutEvent = Default_event] a n c
  show ?thesis
    by simp
qed

subsection \<open>Handle lifetime\<close>










subsection \<open>TLS paths\<close>

lemma ConvertResult_InvalidParam_iff:
  "ConvertResult r = InvalidParam \<longleftrightarrow> r = DWEBBLE_WS_RESULT_INVALID_PARAM"
  by (cases r) simp_all

lemma ConvertResult_TlsError_iff:
  "ConvertResult r = TlsError \<longleftrightarrow> r = DWEBBLE_WS_RESULT_TLS_ERROR"
  by (cases r) simp_all

lemma Start_not_running:
  assumes "\<not> bIsRunning s"
  shows "Start tr E s w =
     (case server_create E (tr (Config s)) (engine_state w) of
        (None, e1) \<Rightarrow>
          (RuntimeError, s\<lparr>ServerHandle := None\<rparr>,
           \<lparr>engine_state = e1, calls = calls w @ [Call_create (tr (Config s)) None]\<rparr>)
      | (Some h, e1) \<Rightarrow>
          (case server_start E h e1 of
             (r, e2) \<Rightarrow>
               (ConvertResult r,
                s\<lparr>ServerHandle := Some h, bIsRunning := (r = DWEBBLE_WS_RESULT_OK)\<rparr>,
                \<lparr>engine_state = e2,
                 calls = calls w @ [Call_create (tr (Config s)) (Some h), Call_start h]\<rparr>)))"
  using assms
  by (simp add: Start_def rws_defs split: prod.splits option.splits)

text \<open>
  C4, as the code has it. \<open>Start\<close> has no test of the TLS paths. A configuration with
  exactly one of the two paths empty is translated with exactly one of the two pointers
  null, and a facade that is not running hands that translated configuration to the
  engine's \<open>create\<close> as its first boundary call. \<open>Start\<close> then returns \<open>RuntimeError\<close>
  when \<open>create\<close> yields no handle, and otherwise the code of the same name as the answer
  of the engine's \<open>start\<close> (\<open>RuntimeError\<close> for a value outside the enumeration), with
  the handle held and the running flag set exactly on Ok. So \<open>Start\<close> returns \<open>Ok\<close>,
  \<open>InvalidParam\<close> or \<open>TlsError\<close> exactly when \<open>create\<close> yielded a handle and the
  engine's \<open>start\<close> answered so: the facade never produces \<open>InvalidParam\<close> by itself.
\<close>

theorem C4_half_tls_forwarded:
  "((TlsCertPath c = []) \<noteq> (TlsKeyPath c = []) \<longrightarrow>
      (tls_cert_path (FfiConfig_Dwebble E c) = None) \<noteq> (tls_key_path (FfiConfig_Dwebble E c) = None))
   \<and> ((TlsCertPath c' = []) \<noteq> (TlsKeyPath c' = []) \<longrightarrow>
      (tls_cert_path (FfiConfig_DwebbleWebSocket E c') = None)
        \<noteq> (tls_key_path (FfiConfig_DwebbleWebSocket E c') = None))
   \<and> ((TlsCertPath (Config sb) = []) \<noteq> (TlsKeyPath (Config sb) = []) \<longrightarrow> \<not> bIsRunning sb \<longrightarrow>
        (\<exists>ffi h rest.
            calls (snd (snd (Start (FfiConfig_Dwebble E) E sb w))) = calls w @ Call_create ffi h # rest
            \<and> ffi = FfiConfig_Dwebble E (Config sb)
            \<and> (tls_cert_path ffi = None) \<noteq> (tls_key_path ffi = None)))
   \<and> ((TlsCertPath (Config sa) = []) \<noteq> (TlsKeyPath (Config sa) = []) \<longrightarrow> \<not> bIsRunning sa \<longrightarrow>
        (\<exists>ffi h rest.
            calls (snd (snd (Start (FfiConfig_DwebbleWebSocket E) E sa w))) =
              calls w @ Call_create ffi h # rest
            \<and> ffi = FfiConfig_DwebbleWebSocket E (Config sa)
            \<and> (tls_cert_path ffi = None) \<noteq> (tls_key_path ffi = None)))
   \<and> (\<not> bIsRunning s \<longrightarrow> server_create E (tr (Config s)) (engine_state w) = (None, e0) \<longrightarrow>
        Start tr E s w =
          (RuntimeError, s\<lparr>ServerHandle := None\<rparr>,
           \<lparr>engine_state = e0, calls = calls w @ [Call_create (tr (Config s)) None]\<rparr>))
   \<and> (\<not> bIsRunning s \<longrightarrow> server_create E (tr (Config s)) (engine_state w) = (Some h, e1) \<longrightarrow>
        server_start E h e1 = (r, e2) \<longrightarrow>
        Start tr E s w =
          ((case r of
                 DWEBBLE_WS_RESULT_OK \<Rightarrow> Ok
               | DWEBBLE_WS_RESULT_INVALID_HANDLE \<Rightarrow> InvalidHandle
               | DWEBBLE_WS_RESULT_INVALID_PARAM \<Rightarrow> InvalidParam
               | DWEBBLE_WS_RESULT_ALREADY_RUNNING \<Rightarrow> AlreadyRunning
               | DWEBBLE_WS_RESULT_NOT_RUNNING \<Rightarrow> NotRunning
               | DWEBBLE_WS_RESULT_BIND_FAILED \<Rightarrow> BindFailed
               | DWEBBLE_WS_RESULT_TLS_ERROR \<Rightarrow> TlsError
               | DWEBBLE_WS_RESULT_RUNTIME_ERROR \<Rightarrow> RuntimeError
               | DWEBBLE_WS_RESULT_SEND_FAILED \<Rightarrow> SendFailed
               | DWEBBLE_WS_RESULT_CONNECTION_CLOSED \<Rightarrow> ConnectionClosed
               | DWEBBLE_WS_RESULT_unlisted v \<Rightarrow> RuntimeError),
           s\<lparr>ServerHandle := Some h, bIsRunning := (r = DWEBBLE_WS_RESULT_OK)\<rparr>,
           \<lparr>engine_state = e2,
            calls = calls w @ [Call_create (tr (Config s)) (Some h), Call_start h]\<rparr>))
   \<and> (\<not> bIsRunning s \<longrightarrow>
        (\<exists>h rest. calls (snd (snd (Start tr E s w))) = calls w @ Call_create (tr (Config s)) h # rest)
      \<and> (fst (Start tr E s w) = RuntimeError
          \<or> (\<exists>h e1. server_create E (tr (Config s)) (engine_state w) = (Some h, e1)
                \<and> fst (Start tr E s w) = ConvertResult (fst (server_start E h e1))))
      \<and> (fst (Start tr E s w) = Ok \<longleftrightarrow>
            (\<exists>h e1 e2. server_create E (tr (Config s)) (engine_state w) = (Some h, e1)
                \<and> server_start E h e1 = (DWEBBLE_WS_RESULT_OK, e2)))
      \<and> (fst (Start tr E s w) = InvalidParam \<longleftrightarrow>
            (\<exists>h e1 e2. server_create E (tr (Config s)) (engine_state w) = (Some h, e1)
                \<and> server_start E h e1 = (DWEBBLE_WS_RESULT_INVALID_PARAM, e2)))
      \<and> (fst (Start tr E s w) = TlsError \<longleftrightarrow>
            (\<exists>h e1 e2. server_create E (tr (Config s)) (engine_state w) = (Some h, e1)
                \<and> server_start E h e1 = (DWEBBLE_WS_RESULT_TLS_ERROR, e2))))"
proof -
  have t1: "(TlsCertPath c = []) \<noteq> (TlsKeyPath c = []) \<longrightarrow>
      (tls_cert_path (FfiConfig_Dwebble E c) = None) \<noteq> (tls_key_path (FfiConfig_Dwebble E c) = None)"
    for c :: "FString FServerConfig"
    by (simp add: FfiConfig_Dwebble_def Let_def)
  have t2: "(TlsCertPath c' = []) \<noteq> (TlsKeyPath c' = []) \<longrightarrow>
      (tls_cert_path (FfiConfig_DwebbleWebSocket E c') = None)
        \<noteq> (tls_key_path (FfiConfig_DwebbleWebSocket E c') = None)"
    for c' :: "(FString list) FServerConfig"
    by (simp add: FfiConfig_DwebbleWebSocket_def Let_def)
  have h1: "((TlsCertPath (Config sb) = []) \<noteq> (TlsKeyPath (Config sb) = []) \<longrightarrow> \<not> bIsRunning sb \<longrightarrow>
        (\<exists>ffi h rest.
            calls (snd (snd (Start (FfiConfig_Dwebble E) E sb w))) = calls w @ Call_create ffi h # rest
            \<and> ffi = FfiConfig_Dwebble E (Config sb)
            \<and> (tls_cert_path ffi = None) \<noteq> (tls_key_path ffi = None)))"
    using t1 [of "Config sb"] Start_first_call [of sb "FfiConfig_Dwebble E" E w]
    by blast
  have h2: "((TlsCertPath (Config sa) = []) \<noteq> (TlsKeyPath (Config sa) = []) \<longrightarrow> \<not> bIsRunning sa \<longrightarrow>
        (\<exists>ffi h rest.
            calls (snd (snd (Start (FfiConfig_DwebbleWebSocket E) E sa w))) =
              calls w @ Call_create ffi h # rest
            \<and> ffi = FfiConfig_DwebbleWebSocket E (Config sa)
            \<and> (tls_cert_path ffi = None) \<noteq> (tls_key_path ffi = None)))"
    using t2 [of "Config sa"] Start_first_call [of sa "FfiConfig_DwebbleWebSocket E" E w]
    by blast
  have e1: "(\<not> bIsRunning s \<longrightarrow> server_create E (tr (Config s)) (engine_state w) = (None, e0) \<longrightarrow>
        Start tr E s w =
          (RuntimeError, s\<lparr>ServerHandle := None\<rparr>,
           \<lparr>engine_state = e0, calls = calls w @ [Call_create (tr (Config s)) None]\<rparr>))"
    by (simp add: Start_def rws_defs)
  have e2: "(\<not> bIsRunning s \<longrightarrow> server_create E (tr (Config s)) (engine_state w) = (Some h, e1) \<longrightarrow>
        server_start E h e1 = (r, e2) \<longrightarrow>
        Start tr E s w =
          ((case r of
                 DWEBBLE_WS_RESULT_OK \<Rightarrow> Ok
               | DWEBBLE_WS_RESULT_INVALID_HANDLE \<Rightarrow> InvalidHandle
               | DWEBBLE_WS_RESULT_INVALID_PARAM \<Rightarrow> InvalidParam
               | DWEBBLE_WS_RESULT_ALREADY_RUNNING \<Rightarrow> AlreadyRunning
               | DWEBBLE_WS_RESULT_NOT_RUNNING \<Rightarrow> NotRunning
               | DWEBBLE_WS_RESULT_BIND_FAILED \<Rightarrow> BindFailed
               | DWEBBLE_WS_RESULT_TLS_ERROR \<Rightarrow> TlsError
               | DWEBBLE_WS_RESULT_RUNTIME_ERROR \<Rightarrow> RuntimeError
               | DWEBBLE_WS_RESULT_SEND_FAILED \<Rightarrow> SendFailed
               | DWEBBLE_WS_RESULT_CONNECTION_CLOSED \<Rightarrow> ConnectionClosed
               | DWEBBLE_WS_RESULT_unlisted v \<Rightarrow> RuntimeError),
           s\<lparr>ServerHandle := Some h, bIsRunning := (r = DWEBBLE_WS_RESULT_OK)\<rparr>,
           \<lparr>engine_state = e2,
            calls = calls w @ [Call_create (tr (Config s)) (Some h), Call_start h]\<rparr>))"
    by (simp add: Start_def rws_defs ConvertResult_same_name [symmetric])
  have rest: "\<not> bIsRunning s \<longrightarrow>
        (\<exists>h rest. calls (snd (snd (Start tr E s w))) = calls w @ Call_create (tr (Config s)) h # rest)
      \<and> (fst (Start tr E s w) = RuntimeError
          \<or> (\<exists>h e1. server_create E (tr (Config s)) (engine_state w) = (Some h, e1)
                \<and> fst (Start tr E s w) = ConvertResult (fst (server_start E h e1))))
      \<and> (fst (Start tr E s w) = Ok \<longleftrightarrow>
            (\<exists>h e1 e2. server_create E (tr (Config s)) (engine_state w) = (Some h, e1)
                \<and> server_start E h e1 = (DWEBBLE_WS_RESULT_OK, e2)))
      \<and> (fst (Start tr E s w) = InvalidParam \<longleftrightarrow>
            (\<exists>h e1 e2. server_create E (tr (Config s)) (engine_state w) = (Some h, e1)
                \<and> server_start E h e1 = (DWEBBLE_WS_RESULT_INVALID_PARAM, e2)))
      \<and> (fst (Start tr E s w) = TlsError \<longleftrightarrow>
            (\<exists>h e1 e2. server_create E (tr (Config s)) (engine_state w) = (Some h, e1)
                \<and> server_start E h e1 = (DWEBBLE_WS_RESULT_TLS_ERROR, e2)))"
  proof (intro conjI impI)
    assume n: "\<not> bIsRunning s"
    obtain ho e1 where cr: "server_create E (tr (Config s)) (engine_state w) = (ho, e1)"
      by (cases "server_create E (tr (Config s)) (engine_state w)")
    show "\<exists>h rest. calls (snd (snd (Start tr E s w))) = calls w @ Call_create (tr (Config s)) h # rest"
      by (rule Start_first_call [OF n])
    show "fst (Start tr E s w) = RuntimeError
          \<or> (\<exists>h e1. server_create E (tr (Config s)) (engine_state w) = (Some h, e1)
                \<and> fst (Start tr E s w) = ConvertResult (fst (server_start E h e1)))"
      by (cases ho) (simp_all add: Start_not_running [OF n] cr split: prod.splits)
    show "fst (Start tr E s w) = Ok \<longleftrightarrow>
            (\<exists>h e1 e2. server_create E (tr (Config s)) (engine_state w) = (Some h, e1)
                \<and> server_start E h e1 = (DWEBBLE_WS_RESULT_OK, e2))"
      by (cases ho)
         (auto simp add: Start_not_running [OF n] cr ConvertResult_Ok_iff split: prod.splits)
    show "fst (Start tr E s w) = InvalidParam \<longleftrightarrow>
            (\<exists>h e1 e2. server_create E (tr (Config s)) (engine_state w) = (Some h, e1)
                \<and> server_start E h e1 = (DWEBBLE_WS_RESULT_INVALID_PARAM, e2))"
      by (cases ho)
         (auto simp add: Start_not_running [OF n] cr ConvertResult_InvalidParam_iff
            split: prod.splits)
    show "fst (Start tr E s w) = TlsError \<longleftrightarrow>
            (\<exists>h e1 e2. server_create E (tr (Config s)) (engine_state w) = (Some h, e1)
                \<and> server_start E h e1 = (DWEBBLE_WS_RESULT_TLS_ERROR, e2))"
      by (cases ho)
         (auto simp add: Start_not_running [OF n] cr ConvertResult_TlsError_iff
            split: prod.splits)
  qed
  from t1 [of c] t2 [of c'] h1 h2 e1 e2 rest show ?thesis
    by (intro conjI)
qed

theorem C4_half_tls_forwarded_witness:
  "(TlsCertPath half_tls_config = []) \<noteq> (TlsKeyPath half_tls_config = [])
   \<and> tls_cert_path (FfiConfig_Dwebble EngineDouble half_tls_config) = Some ''server.pem''
   \<and> tls_key_path (FfiConfig_Dwebble EngineDouble half_tls_config) = None
   \<and> \<not> bIsRunning (Create half_tls_config)
   \<and> Start (FfiConfig_Dwebble EngineDouble) EngineDouble (Create half_tls_config)
        (fresh (double_init\<lparr>start_answer := DWEBBLE_WS_RESULT_TLS_ERROR\<rparr>))
      = (TlsError,
         \<lparr>Config = half_tls_config, ServerHandle = Some 1, bIsRunning = False\<rparr>,
         \<lparr>engine_state = double_init\<lparr>start_answer := DWEBBLE_WS_RESULT_TLS_ERROR, issued := 1\<rparr>,
          calls = [Call_create
                     \<lparr>port = 0, bind_address = Some ''127.0.0.1'', subprotocols = None,
                      tls_cert_path = Some ''server.pem'', tls_key_path = None\<rparr> (Some 1),
                   Call_start 1]\<rparr>)
   \<and> fst (Start (FfiConfig_Dwebble EngineDouble) EngineDouble (Create half_tls_config)
        (fresh (double_init\<lparr>start_answer := DWEBBLE_WS_RESULT_BIND_FAILED\<rparr>))) = BindFailed
   \<and> fst (Start (FfiConfig_Dwebble EngineDouble) EngineDouble (Create half_tls_config)
        (fresh (double_init\<lparr>create_fails := True\<rparr>))) = RuntimeError"
  using C4_half_tls_forwarded [where c = half_tls_config and E = EngineDouble
          and s = "Create half_tls_config" and tr = "FfiConfig_Dwebble EngineDouble"
          and sb = "Create half_tls_config"
          and w = "fresh (double_init\<lparr>start_answer := DWEBBLE_WS_RESULT_TLS_ERROR\<rparr>)"
          and h = 1 and r = DWEBBLE_WS_RESULT_TLS_ERROR
          and ?e1.0 = "double_init\<lparr>start_answer := DWEBBLE_WS_RESULT_TLS_ERROR, issued := 1\<rparr>"
          and ?e2.0 = "double_init\<lparr>start_answer := DWEBBLE_WS_RESULT_TLS_ERROR, issued := 1\<rparr>"]
        C4_half_tls_forwarded [where E = EngineDouble
          and s = "Create half_tls_config" and tr = "FfiConfig_Dwebble EngineDouble"
          and w = "fresh (double_init\<lparr>start_answer := DWEBBLE_WS_RESULT_BIND_FAILED\<rparr>)"
          and h = 1 and r = DWEBBLE_WS_RESULT_BIND_FAILED
          and ?e1.0 = "double_init\<lparr>start_answer := DWEBBLE_WS_RESULT_BIND_FAILED, issued := 1\<rparr>"
          and ?e2.0 = "double_init\<lparr>start_answer := DWEBBLE_WS_RESULT_BIND_FAILED, issued := 1\<rparr>"]
        C4_half_tls_forwarded [where E = EngineDouble
          and s = "Create half_tls_config" and tr = "FfiConfig_Dwebble EngineDouble"
          and w = "fresh (double_init\<lparr>create_fails := True\<rparr>)"
          and ?e0.0 = "double_init\<lparr>create_fails := True\<rparr>"]
  by (simp add: Start_def rws_defs Create_def EngineDouble_def double_init_def fresh_def
        FfiConfig_Dwebble_def half_tls_config_def plain_config_def Default_config_def)

text \<open>
  C4 as stated fails on the code. With a certificate path and no key path, on an engine
  that accepts the configuration, \<open>Start\<close> returns \<open>Ok\<close> and the facade runs; on an
  engine whose \<open>start\<close> answers \<open>InvalidParam\<close>, that answer is returned after the
  \<open>create\<close> and \<open>start\<close> calls have reached the engine, not before.
\<close>

theorem C4_counterexample:
  "TlsCertPath half_tls_config = ''server.pem'' \<and> TlsKeyPath half_tls_config = []
   \<and> Start (FfiConfig_Dwebble EngineDouble) EngineDouble (Create half_tls_config)
        (fresh double_init)
      = (Ok,
         \<lparr>Config = half_tls_config, ServerHandle = Some 1, bIsRunning = True\<rparr>,
         \<lparr>engine_state = double_init\<lparr>issued := 1\<rparr>,
          calls = [Call_create
                     \<lparr>port = 0, bind_address = Some ''127.0.0.1'', subprotocols = None,
                      tls_cert_path = Some ''server.pem'', tls_key_path = None\<rparr> (Some 1),
                   Call_start 1]\<rparr>)
   \<and> Start (FfiConfig_Dwebble EngineDouble) EngineDouble (Create half_tls_config)
        (fresh (double_init\<lparr>start_answer := DWEBBLE_WS_RESULT_INVALID_PARAM\<rparr>))
      = (InvalidParam,
         \<lparr>Config = half_tls_config, ServerHandle = Some 1, bIsRunning = False\<rparr>,
         \<lparr>engine_state = double_init\<lparr>start_answer := DWEBBLE_WS_RESULT_INVALID_PARAM, issued := 1\<rparr>,
          calls = [Call_create
                     \<lparr>port = 0, bind_address = Some ''127.0.0.1'', subprotocols = None,
                      tls_cert_path = Some ''server.pem'', tls_key_path = None\<rparr> (Some 1),
                   Call_start 1]\<rparr>)"
  by (simp add: Start_def rws_defs Create_def EngineDouble_def double_init_def fresh_def
        FfiConfig_Dwebble_def half_tls_config_def plain_config_def Default_config_def)

subsection \<open>Event marshaling\<close>

lemma released_append [simp]: "released (tr @ cs) = released tr @ released cs"
  by (simp add: released_def)

lemma released_Nil [simp]: "released [] = []"
  by (simp add: released_def)

lemma released_Cons [simp]: "released (c # cs) = released_by c @ released cs"
  by (simp add: released_def)

lemma Start_released: "released (calls (snd (snd (Start tr E s w)))) = released (calls w)"
  by (simp add: Start_def rws_defs split: prod.splits option.splits)

lemma Stop_released: "released (calls (snd (snd (Stop E s w)))) = released (calls w)"
  by (simp add: Stop_def rws_defs split: prod.splits option.splits)

lemma Destructor_released: "released (calls (snd (Destructor E s w))) = released (calls w)"
  by (simp add: Destructor_def Stop_def rws_defs split: prod.splits option.splits)

lemma PollEvent_released:
  "released (calls (snd (snd (PollEvent E s OutEvent w)))) = released (calls w)"
  by (simp add: PollEvent_def rws_defs split: prod.splits option.splits)

lemma Info_released:
  "released (calls (snd (Info E s w))) =
     released (calls w) @
       (case ServerHandle s of
          None \<Rightarrow> []
        | Some h \<Rightarrow> (case fst (server_info E h (engine_state w)) of
                       None \<Rightarrow> []
                     | Some str \<Rightarrow> [str]))"
  by (simp add: Info_def rws_defs Let_def split: prod.splits option.splits)

text \<open>
  C5, as the code has it. On every successful dequeue of an event whose \<open>data_len\<close> is
  covered by its buffer and below \<open>2^31\<close>, \<open>PollEvent\<close> returns true and writes a copy
  of the engine's event into the caller's event: the mapped type, the connection id, the
  first \<open>data_len\<close> bytes of the message buffer (the whole buffer when \<open>data_len\<close> is its
  length; empty when the pointer is null or the length zero) and the converted error text
  (empty when the pointer is null). The host's event holds bytes and characters, no
  pointer. The only boundary call of \<open>PollEvent\<close> is the \<open>poll\<close>. No operation of the
  facade other than \<open>Info\<close> releases an engine string: \<open>PollEvent\<close>, \<open>Start\<close>, \<open>Stop\<close>,
  \<open>GetPort\<close>, \<open>GetConnectionCount\<close>, \<open>Send\<close>, \<open>SendText\<close>, \<open>Disconnect\<close> and the
  destructor leave the list of released strings as it was, on every input. \<open>Info\<close>
  releases exactly the info string the engine returned, once, after converting it, and
  nothing when there is no handle or the engine returned null.
\<close>

theorem C5_PollEvent_copies:
  "(ServerHandle s = Some h \<longrightarrow> server_poll E h (engine_state w) = (Some ev, e1)
      \<longrightarrow> (case data ev of None \<Rightarrow> True | Some buf \<Rightarrow> data_len ev \<le> length buf)
      \<longrightarrow> data_len ev < 2 ^ 31
      \<longrightarrow> PollEvent E s OutEvent w =
            (True,
             OutEvent\<lparr>EventType := ConvertEventType (event_type ev),
                       ConnectionId := connection_id ev,
                       Data := (case data ev of
                                  None \<Rightarrow> []
                                | Some buf \<Rightarrow> take (data_len ev) buf),
                       ErrorMessage := (case error_message ev of
                                          None \<Rightarrow> []
                                        | Some msg \<Rightarrow> UTF8_TO_TCHAR E msg)\<rparr>,
             \<lparr>engine_state = e1, calls = calls w @ [Call_poll h]\<rparr>)
          \<and> (\<forall>buf. data ev = Some buf \<longrightarrow> data_len ev = length buf \<longrightarrow>
                Data (fst (snd (PollEvent E s OutEvent w))) = buf))
   \<and> released (calls (snd (snd (PollEvent E s OutEvent w)))) = released (calls w)
   \<and> released (calls (snd (snd (Start tr E s w)))) = released (calls w)
   \<and> released (calls (snd (snd (Stop E s w)))) = released (calls w)
   \<and> released (calls (snd (GetPort E s w))) = released (calls w)
   \<and> released (calls (snd (GetConnectionCount E s w))) = released (calls w)
   \<and> released (calls (snd (Send E s c bytes w))) = released (calls w)
   \<and> released (calls (snd (SendText E s c txt w))) = released (calls w)
   \<and> released (calls (snd (Disconnect E s c w))) = released (calls w)
   \<and> released (calls (snd (Destructor E s w))) = released (calls w)
   \<and> released (calls (snd (Info E s w))) =
        released (calls w) @
          (case ServerHandle s of
             None \<Rightarrow> []
           | Some h' \<Rightarrow> (case fst (server_info E h' (engine_state w)) of
                          None \<Rightarrow> []
                        | Some str' \<Rightarrow> [str']))
   \<and> (ServerHandle s = Some h \<longrightarrow> server_info E h (engine_state w) = (Some str, e1) \<longrightarrow>
      Info E s w =
        (UTF8_TO_TCHAR E str,
         \<lparr>engine_state = free_string E str e1,
          calls = calls w @ [Call_info h, Call_free_string str]\<rparr>))"
proof -
  have copy: "ServerHandle s = Some h \<longrightarrow> server_poll E h (engine_state w) = (Some ev, e1)
      \<longrightarrow> (case data ev of None \<Rightarrow> True | Some buf \<Rightarrow> data_len ev \<le> length buf)
      \<longrightarrow> data_len ev < 2 ^ 31
      \<longrightarrow> PollEvent E s OutEvent w =
            (True,
             OutEvent\<lparr>EventType := ConvertEventType (event_type ev),
                       ConnectionId := connection_id ev,
                       Data := (case data ev of
                                  None \<Rightarrow> []
                                | Some buf \<Rightarrow> take (data_len ev) buf),
                       ErrorMessage := (case error_message ev of
                                          None \<Rightarrow> []
                                        | Some msg \<Rightarrow> UTF8_TO_TCHAR E msg)\<rparr>,
             \<lparr>engine_state = e1, calls = calls w @ [Call_poll h]\<rparr>)
          \<and> (\<forall>buf. data ev = Some buf \<longrightarrow> data_len ev = length buf \<longrightarrow>
                Data (fst (snd (PollEvent E s OutEvent w))) = buf)"
    by (auto simp add: PollEvent_def rws_defs split: prod.splits option.splits)
  have others:
    "released (calls (snd (GetPort E s w))) = released (calls w)"
    "released (calls (snd (GetConnectionCount E s w))) = released (calls w)"
    "released (calls (snd (Send E s c bytes w))) = released (calls w)"
    "released (calls (snd (SendText E s c txt w))) = released (calls w)"
    "released (calls (snd (Disconnect E s c w))) = released (calls w)"
    by (simp_all add: facade_defs rws_defs Let_def split: prod.splits option.splits)
  have info: "ServerHandle s = Some h \<longrightarrow> server_info E h (engine_state w) = (Some str, e1) \<longrightarrow>
      Info E s w =
        (UTF8_TO_TCHAR E str,
         \<lparr>engine_state = free_string E str e1,
          calls = calls w @ [Call_info h, Call_free_string str]\<rparr>)"
    by (simp add: Info_def rws_defs)
  from copy others info show ?thesis
    by (simp only: PollEvent_released Start_released Stop_released Destructor_released
          Info_released simp_thms)
qed

theorem C5_PollEvent_copies_witness:
  "ServerHandle (Create plain_config\<lparr>ServerHandle := Some 1\<rparr>) = Some 1
   \<and> data text_event = Some [1, 2, 3] \<and> data_len text_event = 3
   \<and> PollEvent EngineDouble (Create plain_config\<lparr>ServerHandle := Some 1\<rparr>) Default_event
        (fresh (double_init\<lparr>pending := [text_event]\<rparr>))
      = (True,
         \<lparr>EventType = Error_event, ConnectionId = 7, Data = [1, 2, 3], ErrorMessage = ''boom''\<rparr>,
         \<lparr>engine_state = double_init, calls = [Call_poll 1]\<rparr>)
   \<and> Info EngineDouble (Create plain_config\<lparr>ServerHandle := Some 1\<rparr>) (fresh double_init)
      = (''127.0.0.1:8080'',
         \<lparr>engine_state = double_init,
          calls = [Call_info 1, Call_free_string ''127.0.0.1:8080'']\<rparr>)
   \<and> released (calls (snd (Info EngineDouble (Create plain_config\<lparr>ServerHandle := Some 1\<rparr>)
        (fresh double_init)))) = [''127.0.0.1:8080'']
   \<and> released (calls (snd (Send EngineDouble (Create plain_config\<lparr>ServerHandle := Some 1\<rparr>)
        7 [1, 2, 3] (fresh double_init)))) = []"
  using C5_PollEvent_copies
          [where s = "Create plain_config\<lparr>ServerHandle := Some 1\<rparr>" and h = 1
             and E = EngineDouble and OutEvent = Default_event
             and w = "fresh (double_init\<lparr>pending := [text_event]\<rparr>)"
             and ev = text_event and ?e1.0 = double_init]
        C5_PollEvent_copies
          [where s = "Create plain_config\<lparr>ServerHandle := Some 1\<rparr>" and h = 1
             and E = EngineDouble and w = "fresh double_init"
             and str = "''127.0.0.1:8080''" and ?e1.0 = double_init
             and c = 7 and bytes = "[1, 2, 3]"]
  by (simp add: PollEvent_def Info_def Send_def rws_defs Create_def EngineDouble_def
        double_init_def fresh_def Default_event_def text_event_def)

text \<open>
  C5 as stated fails on the code. The engine test double serves an event with a
  three-byte payload and the error text \<open>boom\<close>; \<open>PollEvent\<close> returns it, and the log of
  boundary calls holds the \<open>poll\<close> and nothing else, so no buffer was released.
\<close>

theorem C5_counterexample:
  "fst (PollEvent EngineDouble (Create plain_config\<lparr>ServerHandle := Some 1\<rparr>) Default_event
        (fresh (double_init\<lparr>pending := [text_event]\<rparr>))) = True
   \<and> data text_event = Some [1, 2, 3] \<and> error_message text_event = Some ''boom''
   \<and> calls (snd (snd (PollEvent EngineDouble (Create plain_config\<lparr>ServerHandle := Some 1\<rparr>)
        Default_event (fresh (double_init\<lparr>pending := [text_event]\<rparr>))))) = [Call_poll 1]
   \<and> Call_free_string ''boom'' \<notin> set (calls (snd (snd (PollEvent EngineDouble
        (Create plain_config\<lparr>ServerHandle := Some 1\<rparr>) Default_event
        (fresh (double_init\<lparr>pending := [text_event]\<rparr>))))))"
  by (simp add: PollEvent_def rws_defs Create_def EngineDouble_def double_init_def
        fresh_def Default_event_def text_event_def)

end
